theory Spec2Isabelle
  imports Complex_Main "HOL-Library.AList" "HOL-Library.Monad_Syntax"
begin

section \<open>Exceptions\<close>

text \<open>
  The Python exceptions the indexed code can raise. A function that can raise returns
  \<open>error + 'a\<close>, with \<open>Inl\<close> for the exception. \<open>RequestException\<close> stands for
  every failure of \<^verbatim>\<open>session.get\<close>, \<^verbatim>\<open>raise_for_status\<close> and \<^verbatim>\<open>response.json\<close>.
\<close>

datatype error =
    KeyError
  | AttributeError
  | TypeError
  | ValueError
  | IndexError
  | ValidationError
  | RequestException
  | OSError

section \<open>schema.py\<close>

subsection \<open>datetime\<close>

text \<open>
  A \<^verbatim>\<open>datetime\<close> is a wall-clock reading, counted in microseconds since
  \<^verbatim>\<open>datetime.min\<close> (0001-01-01T00:00:00), with an optional UTC offset in microseconds.
  Without offset the value is naive, with one it is aware. \<^verbatim>\<open>datetime.min\<close> is naive.
  Python orders two naive values by their readings and two aware values by their UTC
  instants; \<^verbatim>\<open><\<close> between a naive and an aware value raises \<^verbatim>\<open>TypeError\<close>, and
  \<^verbatim>\<open>==\<close> between them is false.
\<close>

record datetime =
  wall :: nat
  utcoffset :: "int option"

definition datetime_min :: datetime where
  "datetime_min = \<lparr>wall = 0, utcoffset = None\<rparr>"

definition datetime_lt :: "datetime \<Rightarrow> datetime \<Rightarrow> error + bool" where
  "datetime_lt a b =
     (case utcoffset a of
        None \<Rightarrow> (case utcoffset b of
                    None \<Rightarrow> Inr (wall a < wall b)
                  | Some y \<Rightarrow> Inl TypeError)
      | Some x \<Rightarrow> (case utcoffset b of
                    None \<Rightarrow> Inl TypeError
                  | Some y \<Rightarrow> Inr (int (wall a) - x < int (wall b) - y)))"

definition datetime_eq :: "datetime \<Rightarrow> datetime \<Rightarrow> bool" where
  "datetime_eq a b =
     (case utcoffset a of
        None \<Rightarrow> (case utcoffset b of
                    None \<Rightarrow> wall a = wall b
                  | Some y \<Rightarrow> False)
      | Some x \<Rightarrow> (case utcoffset b of
                    None \<Rightarrow> False
                  | Some y \<Rightarrow> int (wall a) - x = int (wall b) - y))"

definition opt_datetime_eq :: "datetime option \<Rightarrow> datetime option \<Rightarrow> bool" where
  "opt_datetime_eq a b =
     (case a of
        None \<Rightarrow> (case b of None \<Rightarrow> True | Some y \<Rightarrow> False)
      | Some x \<Rightarrow> (case b of None \<Rightarrow> False | Some y \<Rightarrow> datetime_eq x y))"

subsection \<open>Project\<close>

text \<open>
  The fields of \<^verbatim>\<open>class Project(BaseModel)\<close>, in the order of their declaration.
  The field \<^verbatim>\<open>type\<close> is named \<open>type'\<close> here.
\<close>

record project =
  source :: string
  type' :: string
  name :: string
  full_name :: string
  description :: "string option"
  url :: string
  created_at :: "datetime option"
  updated_at :: "datetime option"
  language :: "string option"
  topics :: "string list"

text \<open>
  \<^verbatim>\<open>==\<close> of two model instances compares them field by field, each field with its
  own \<^verbatim>\<open>==\<close>.
\<close>

definition project_eq :: "project \<Rightarrow> project \<Rightarrow> bool" where
  "project_eq p q =
     (source p = source q \<and> type' p = type' q \<and> name p = name q
      \<and> full_name p = full_name q \<and> description p = description q \<and> url p = url q
      \<and> opt_datetime_eq (created_at p) (created_at q)
      \<and> opt_datetime_eq (updated_at p) (updated_at q)
      \<and> language p = language q \<and> topics p = topics q)"

subsection \<open>JSON values\<close>

text \<open>
  What \<^verbatim>\<open>json.load\<close> and \<^verbatim>\<open>response.json()\<close> return: \<^verbatim>\<open>None\<close>, booleans, numbers,
  strings, lists, and dictionaries in insertion order (an association list whose first
  entry for a key is the one a lookup finds). The values \<^verbatim>\<open>nan\<close> and \<^verbatim>\<open>inf\<close>, which
  Python's decoder accepts beyond the JSON standard, are left out.
\<close>

datatype json =
    JNull
  | JBool bool
  | JInt int
  | JFloat real
  | JStr string
  | JArr "json list"
  | JObj "(string \<times> json) list"

subsection \<open>ProjectIndex\<close>

record project_index =
  metadata :: "(string \<times> json) list"
  projects :: "project list"

text \<open>
  \<^verbatim>\<open>ProjectIndex()\<close>: the default metadata holds the time of construction, rendered by
  \<^verbatim>\<open>datetime.now().isoformat()\<close>; the rendered time is the argument.
\<close>

definition ProjectIndex_new :: "string \<Rightarrow> project_index" where
  "ProjectIndex_new now =
     \<lparr>metadata = [(''generated_at'', JStr now), (''version'', JStr ''1.0'')],
      projects = []\<rparr>"

definition add_project :: "project_index \<Rightarrow> project \<Rightarrow> project_index" where
  "add_project idx p = idx\<lparr>projects := projects idx @ [p]\<rparr>"

definition get_project_key :: "project \<Rightarrow> string" where
  "get_project_key p = source p @ '':'' @ full_name p"

definition find_project :: "project_index \<Rightarrow> project \<Rightarrow> project option" where
  "find_project idx p =
     find (\<lambda>existing. get_project_key existing = get_project_key p) (projects idx)"

text \<open>
  \<^verbatim>\<open>list.index(x)\<close>: the position of the first element equal to \<^verbatim>\<open>x\<close> (by \<^verbatim>\<open>==\<close>),
  \<^verbatim>\<open>ValueError\<close> when there is none.
\<close>

fun list_index :: "project list \<Rightarrow> project \<Rightarrow> error + nat" where
  "list_index [] x = Inl ValueError"
| "list_index (y # ys) x =
     (if project_eq y x then Inr 0
      else (case list_index ys x of Inl e \<Rightarrow> Inl e | Inr i \<Rightarrow> Inr (Suc i)))"

text \<open>
  \<^verbatim>\<open>merge_project\<close> returns \<^verbatim>\<open>True\<close> when the project was added and \<^verbatim>\<open>False\<close> when
  it replaced an existing one; the index it mutates is returned with the flag. A model
  instance is always true in \<^verbatim>\<open>if existing:\<close>, so the branch is taken exactly when
  \<^verbatim>\<open>find_project\<close> found something.
\<close>

definition merge_project :: "project_index \<Rightarrow> project \<Rightarrow> error + (project_index \<times> bool)" where
  "merge_project idx new_project =
     (case find_project idx new_project of
        Some existing \<Rightarrow>
          (case list_index (projects idx) existing of
             Inl e \<Rightarrow> Inl e
           | Inr i \<Rightarrow> Inr (idx\<lparr>projects := (projects idx)[i := new_project]\<rparr>, False))
      | None \<Rightarrow> Inr (add_project idx new_project, True))"

record merge_stats =
  added :: int
  updated :: int

fun merge_loop ::
  "project_index \<Rightarrow> project list \<Rightarrow> int \<Rightarrow> int \<Rightarrow> error + (project_index \<times> merge_stats)" where
  "merge_loop idx [] a u = Inr (idx, \<lparr>added = a, updated = u\<rparr>)"
| "merge_loop idx (p # ps) a u =
     (case merge_project idx p of
        Inl e \<Rightarrow> Inl e
      | Inr (idx', was_added) \<Rightarrow>
          if was_added then merge_loop idx' ps (a + 1) u
          else merge_loop idx' ps a (u + 1))"

definition merge_projects ::
  "project_index \<Rightarrow> project list \<Rightarrow> error + (project_index \<times> merge_stats)" where
  "merge_projects idx new_projects = merge_loop idx new_projects 0 0"

definition get_by_source :: "project_index \<Rightarrow> string \<Rightarrow> project list" where
  "get_by_source idx s = filter (\<lambda>p. source p = s) (projects idx)"

definition get_by_type :: "project_index \<Rightarrow> string \<Rightarrow> project list" where
  "get_by_type idx t = filter (\<lambda>p. type' p = t) (projects idx)"

text \<open>
  \<^verbatim>\<open>sort_by_date\<close>: the key of a project is \<^verbatim>\<open>x.created_at or datetime.min\<close> (a
  \<^verbatim>\<open>datetime\<close> is always true, so \<^verbatim>\<open>datetime.min\<close> stands in exactly for \<^verbatim>\<open>None\<close>).

  \<^verbatim>\<open>list.sort(key=..., reverse=...)\<close> is stable, also with \<^verbatim>\<open>reverse=True\<close>, and
  compares keys with \<^verbatim>\<open><\<close> only; a comparison that raises ends the sort with that
  exception. The model sorts by insertion, starting from the last element: a project
  passes those behind it whose key is smaller (ascending) or larger (descending), and
  stays in front of those with an equal key.
\<close>

definition created_key :: "project \<Rightarrow> datetime" where
  "created_key x = (case created_at x of None \<Rightarrow> datetime_min | Some d \<Rightarrow> d)"

fun insert_by :: "bool \<Rightarrow> project \<Rightarrow> project list \<Rightarrow> error + project list" where
  "insert_by reverse x [] = Inr [x]"
| "insert_by reverse x (y # ys) =
     (case (if reverse then datetime_lt (created_key x) (created_key y)
            else datetime_lt (created_key y) (created_key x)) of
        Inl e \<Rightarrow> Inl e
      | Inr passes \<Rightarrow>
          if passes
          then (case insert_by reverse x ys of Inl e \<Rightarrow> Inl e | Inr r \<Rightarrow> Inr (y # r))
          else Inr (x # y # ys))"

fun list_sort :: "bool \<Rightarrow> project list \<Rightarrow> error + project list" where
  "list_sort reverse [] = Inr []"
| "list_sort reverse (x # xs) =
     (case list_sort reverse xs of Inl e \<Rightarrow> Inl e | Inr r \<Rightarrow> insert_by reverse x r)"

definition sort_by_date :: "project_index \<Rightarrow> bool \<Rightarrow> error + project_index" where
  "sort_by_date idx reverse =
     (case list_sort reverse (projects idx) of
        Inl e \<Rightarrow> Inl e
      | Inr ps \<Rightarrow> Inr (idx\<lparr>projects := ps\<rparr>))"

section \<open>Python values and pydantic validation\<close>

text \<open>Sequencing of computations that can raise: the first exception ends the rest.\<close>

definition ebind :: "error + 'a \<Rightarrow> ('a \<Rightarrow> error + 'b) \<Rightarrow> error + 'b" where
  "ebind m f = (case m of Inl e \<Rightarrow> Inl e | Inr x \<Rightarrow> f x)"

text \<open>Truth of a value in \<^verbatim>\<open>if x\<close>, \<^verbatim>\<open>not x\<close> and \<^verbatim>\<open>x or y\<close>.\<close>

fun truthy :: "json \<Rightarrow> bool" where
  "truthy JNull = False"
| "truthy (JBool b) = b"
| "truthy (JInt i) = (i \<noteq> 0)"
| "truthy (JFloat r) = (r \<noteq> 0)"
| "truthy (JStr s) = (s \<noteq> [])"
| "truthy (JArr xs) = (xs \<noteq> [])"
| "truthy (JObj d) = (d \<noteq> [])"

text \<open>
  \<^verbatim>\<open>d.get(k, default)\<close>: only a dictionary has \<^verbatim>\<open>get\<close>. \<^verbatim>\<open>d.get(k)\<close> is
  \<open>py_get d k JNull\<close>.
\<close>

fun py_get :: "json \<Rightarrow> string \<Rightarrow> json \<Rightarrow> error + json" where
  "py_get (JObj d) k dflt = Inr (case map_of d k of None \<Rightarrow> dflt | Some v \<Rightarrow> v)"
| "py_get j k dflt = Inl AttributeError"

text \<open>
  \<^verbatim>\<open>d[k]\<close> with a string \<^verbatim>\<open>k\<close>: \<^verbatim>\<open>KeyError\<close> on a dictionary without the key,
  \<^verbatim>\<open>TypeError\<close> on every other value.
\<close>

fun py_getitem :: "json \<Rightarrow> string \<Rightarrow> error + json" where
  "py_getitem (JObj d) k = (case map_of d k of None \<Rightarrow> Inl KeyError | Some v \<Rightarrow> Inr v)"
| "py_getitem j k = Inl TypeError"

text \<open>
  \<^verbatim>\<open>for x in v\<close>: a list gives its items, a dictionary its keys, a string its
  characters; the other values are not iterable.
\<close>

fun py_iter :: "json \<Rightarrow> error + json list" where
  "py_iter (JArr xs) = Inr xs"
| "py_iter (JObj d) = Inr (map (\<lambda>kv. JStr (fst kv)) d)"
| "py_iter (JStr s) = Inr (map (\<lambda>c. JStr [c]) s)"
| "py_iter j = Inl TypeError"

fun py_len :: "json \<Rightarrow> error + int" where
  "py_len (JArr xs) = Inr (int (length xs))"
| "py_len (JObj d) = Inr (int (length d))"
| "py_len (JStr s) = Inr (int (length s))"
| "py_len j = Inl TypeError"

text \<open>
  \<^verbatim>\<open>s.replace("Z", "+00:00")\<close>: every \<^verbatim>\<open>Z\<close> is replaced; only a string has
  \<^verbatim>\<open>replace\<close>.
\<close>

definition replace_Z :: "string \<Rightarrow> string" where
  "replace_Z s = concat (map (\<lambda>c. if c = CHR ''Z'' then ''+00:00'' else [c]) s)"

fun py_replace_Z :: "json \<Rightarrow> error + string" where
  "py_replace_Z (JStr s) = Inr (replace_Z s)"
| "py_replace_Z j = Inl AttributeError"

text \<open>
  The functions of the \<^verbatim>\<open>datetime\<close> and pydantic libraries that read and write
  timestamps are parameters of the model:
  \<^item> \<open>fromisoformat\<close> is \<^verbatim>\<open>datetime.fromisoformat\<close> on a string, \<open>None\<close> where it
    raises \<^verbatim>\<open>ValueError\<close>;
  \<^item> \<open>isoformat\<close> is \<^verbatim>\<open>datetime.isoformat\<close>, the JSON form of a timestamp;
  \<^item> \<open>str_datetime\<close> is \<^verbatim>\<open>str\<close> of a \<^verbatim>\<open>datetime\<close>;
  \<^item> \<open>validate_datetime\<close> is pydantic's validation of a value other than \<^verbatim>\<open>None\<close>
    for a \<^verbatim>\<open>datetime\<close> field, \<open>None\<close> where it refuses the value.

  So is \<open>str_json\<close>, the text \<^verbatim>\<open>str(v)\<close> of a value that is not a string, as an
  f-string renders it.
\<close>

record lib =
  fromisoformat :: "string \<Rightarrow> datetime option"
  isoformat :: "datetime \<Rightarrow> string"
  str_datetime :: "datetime \<Rightarrow> string"
  validate_datetime :: "json \<Rightarrow> datetime option"
  str_json :: "json \<Rightarrow> string"

text \<open>A value inside an f-string: a string stands for itself.\<close>

definition py_format :: "lib \<Rightarrow> json \<Rightarrow> string" where
  "py_format L j = (case j of JStr s \<Rightarrow> s | _ \<Rightarrow> str_json L j)"

definition py_fromisoformat :: "lib \<Rightarrow> string \<Rightarrow> error + datetime" where
  "py_fromisoformat L s = (case fromisoformat L s of None \<Rightarrow> Inl ValueError | Some d \<Rightarrow> Inr d)"

text \<open>
  Validation of the fields of \<^verbatim>\<open>Project\<close>: a \<^verbatim>\<open>str\<close> field takes a string, an
  \<^verbatim>\<open>Optional[str]\<close> field a string or \<^verbatim>\<open>None\<close>, \<^verbatim>\<open>List[str]\<close> a list of strings,
  \<^verbatim>\<open>Optional[datetime]\<close> a \<^verbatim>\<open>None\<close> or what \<open>validate_datetime\<close> accepts. \<open>None\<close>
  is a refusal.
\<close>

fun validate_str :: "json \<Rightarrow> string option" where
  "validate_str (JStr s) = Some s"
| "validate_str j = None"

fun validate_opt_str :: "json \<Rightarrow> string option option" where
  "validate_opt_str JNull = Some None"
| "validate_opt_str (JStr s) = Some (Some s)"
| "validate_opt_str j = None"

fun validate_str_list :: "json \<Rightarrow> string list option" where
  "validate_str_list (JArr xs) = those (map validate_str xs)"
| "validate_str_list j = None"

definition validate_opt_datetime :: "lib \<Rightarrow> json \<Rightarrow> datetime option option" where
  "validate_opt_datetime L j =
     (if j = JNull then Some None else map_option Some (validate_datetime L j))"

text \<open>
  \<^verbatim>\<open>Project(source=..., type=..., ...)\<close> as the fetchers call it: the two timestamps are
  \<^verbatim>\<open>datetime\<close> objects or \<^verbatim>\<open>None\<close> already, the other arguments are validated. Any
  refusal raises \<^verbatim>\<open>ValidationError\<close>.
\<close>

definition Project_init ::
  "json \<Rightarrow> json \<Rightarrow> json \<Rightarrow> json \<Rightarrow> json \<Rightarrow> json \<Rightarrow> datetime option \<Rightarrow> datetime option
   \<Rightarrow> json \<Rightarrow> json \<Rightarrow> error + project" where
  "Project_init src ty nm fn ds ur ca ua lg tp =
     (case do {
             src' \<leftarrow> validate_str src;
             ty' \<leftarrow> validate_str ty;
             nm' \<leftarrow> validate_str nm;
             fn' \<leftarrow> validate_str fn;
             ds' \<leftarrow> validate_opt_str ds;
             ur' \<leftarrow> validate_str ur;
             lg' \<leftarrow> validate_opt_str lg;
             tp' \<leftarrow> validate_str_list tp;
             Some \<lparr>source = src', type' = ty', name = nm', full_name = fn',
                   description = ds', url = ur', created_at = ca, updated_at = ua,
                   language = lg', topics = tp'\<rparr>
           } of
        None \<Rightarrow> Inl ValidationError
      | Some p \<Rightarrow> Inr p)"

section \<open>The outside world\<close>

text \<open>
  A request is what \<^verbatim>\<open>session.get(url, params=...)\<close> sends: the URL, the query
  parameters and the headers of the session. The remote side is a function from the
  request to the decoded body (\<^verbatim>\<open>response.json()\<close>), or to the exception that
  \<^verbatim>\<open>get\<close>, \<^verbatim>\<open>raise_for_status\<close> or the decoding raises.

  Everything the program does to the outside is appended to a trace: each request it
  sends and each record it logs. A log record keeps the level, the text of the f-string
  as the source has it, and the values of its placeholders.
\<close>

record request =
  req_url :: string
  req_params :: "(string \<times> json) list"
  req_headers :: "(string \<times> string) list"

type_synonym http = "request \<Rightarrow> error + json"

datatype log_level = INFO | WARNING | ERROR

datatype log_arg = ArgInt int | ArgStr string | ArgErr error | ArgJson json

datatype event =
    Request request
  | Log log_level string "log_arg list"

definition requests_of :: "event list \<Rightarrow> request list" where
  "requests_of tr = concat (map (\<lambda>ev. case ev of Request r \<Rightarrow> [r] | Log l m a \<Rightarrow> []) tr)"

text \<open>
  Each item of a response is either skipped (\<open>None\<close>), mapped to a project, or raises;
  the first exception ends the whole fetch.
\<close>

fun collect :: "(json \<Rightarrow> error + project option) \<Rightarrow> json list \<Rightarrow> error + project list" where
  "collect f [] = Inr []"
| "collect f (x # xs) =
     (case f x of
        Inl e \<Rightarrow> Inl e
      | Inr r \<Rightarrow>
          (case collect f xs of
             Inl e \<Rightarrow> Inl e
           | Inr ps \<Rightarrow> Inr (case r of None \<Rightarrow> ps | Some p \<Rightarrow> p # ps)))"

section \<open>github\_indexer.py\<close>

record github_indexer =
  gh_api_key :: string
  gh_base_url :: string
  gh_headers :: "(string \<times> string) list"

text \<open>
  \<^verbatim>\<open>GitHubIndexer(api_key)\<close>: the key is the argument if it is a non-empty string, else
  the environment variable; without a non-empty key the constructor raises
  \<^verbatim>\<open>ValueError\<close>.
\<close>

definition or_getenv :: "string option \<Rightarrow> string option \<Rightarrow> string option" where
  "or_getenv api_key env_value =
     (case api_key of
        None \<Rightarrow> env_value
      | Some k \<Rightarrow> if k = [] then env_value else Some k)"

definition GitHubIndexer_init ::
  "(string \<Rightarrow> string option) \<Rightarrow> string option \<Rightarrow> error + github_indexer" where
  "GitHubIndexer_init env api_key =
     (case or_getenv api_key (env ''GITHUB_API_KEY'') of
        None \<Rightarrow> Inl ValueError
      | Some k \<Rightarrow>
          if k = [] then Inl ValueError
          else Inr \<lparr>gh_api_key = k, gh_base_url = ''https://api.github.com'',
                    gh_headers = [(''Authorization'', ''token '' @ k),
                                  (''Accept'', ''application/vnd.github.v3+json'')]\<rparr>)"

definition gh_get_authenticated_user ::
  "http \<Rightarrow> github_indexer \<Rightarrow> event list \<Rightarrow> event list \<times> (error + json)" where
  "gh_get_authenticated_user http ix tr =
     (let req = \<lparr>req_url = gh_base_url ix @ ''/user'', req_params = [],
                 req_headers = gh_headers ix\<rparr>
      in (tr @ [Request req], ebind (http req) (\<lambda>body. py_getitem body ''login'')))"

text \<open>
  The body of \<^verbatim>\<open>for repo in repos\<close>: \<open>None\<close> is \<^verbatim>\<open>continue\<close>. The arguments of
  \<^verbatim>\<open>Project(...)\<close> are evaluated from left to right, then validated.
\<close>

definition repo_to_project :: "lib \<Rightarrow> json \<Rightarrow> error + project option" where
  "repo_to_project L repo =
     ebind (py_get repo ''private'' (JBool False)) (\<lambda>private.
     if truthy private then Inr None
     else
       ebind (py_getitem repo ''name'') (\<lambda>nm.
       ebind (py_getitem repo ''full_name'') (\<lambda>fn.
       ebind (py_get repo ''description'' JNull) (\<lambda>ds.
       ebind (py_getitem repo ''html_url'') (\<lambda>ur.
       ebind (py_getitem repo ''created_at'') (\<lambda>c.
       ebind (py_replace_Z c) (\<lambda>cs.
       ebind (py_fromisoformat L cs) (\<lambda>ca.
       ebind (py_getitem repo ''updated_at'') (\<lambda>u.
       ebind (py_replace_Z u) (\<lambda>us.
       ebind (py_fromisoformat L us) (\<lambda>ua.
       ebind (py_get repo ''language'' JNull) (\<lambda>lg.
       ebind (py_get repo ''topics'' (JArr [])) (\<lambda>tp.
       ebind (Project_init (JStr ''GitHub'') (JStr ''Repository'') nm fn ds ur
                (Some ca) (Some ua) lg tp) (\<lambda>p.
       Inr (Some p)))))))))))))))"

definition repos_request :: "github_indexer \<Rightarrow> string \<Rightarrow> int \<Rightarrow> request" where
  "repos_request ix username page =
     \<lparr>req_url = gh_base_url ix @ ''/users/'' @ username @ ''/repos'',
      req_params = [(''type'', JStr ''public''), (''per_page'', JInt 100),
                    (''page'', JInt page), (''sort'', JStr ''updated'')],
      req_headers = gh_headers ix\<rparr>"

text \<open>
  The \<^verbatim>\<open>while True\<close> loop of \<^verbatim>\<open>fetch_public_repos\<close>, with \<^verbatim>\<open>per_page = 100\<close>. It
  has no bound on the number of pages: a result \<open>None\<close> is a loop that never ends.
\<close>

partial_function (option) repos_loop ::
  "lib \<Rightarrow> http \<Rightarrow> github_indexer \<Rightarrow> string \<Rightarrow> int \<Rightarrow> project list \<Rightarrow> event list
   \<Rightarrow> (event list \<times> (error + project list)) option" where
  "repos_loop L http ix username page acc tr =
     (let req = repos_request ix username page;
          tr1 = tr @ [Request req]
      in case http req of
           Inl e \<Rightarrow> Some (tr1, Inl e)
         | Inr repos \<Rightarrow>
             if \<not> truthy repos then Some (tr1, Inr acc)
             else
               (case ebind (py_iter repos) (collect (repo_to_project L)) of
                  Inl e \<Rightarrow> Some (tr1, Inl e)
                | Inr new \<Rightarrow>
                    (case py_len repos of
                       Inl e \<Rightarrow> Some (tr1, Inl e)
                     | Inr n \<Rightarrow>
                         let tr2 = tr1 @ [Log INFO ''Fetched page {page} ({len(repos)} repos)''
                                            [ArgInt page, ArgInt n]]
                         in if n < 100 then Some (tr2, Inr (acc @ new))
                            else repos_loop L http ix username (page + 1)
                                   (acc @ new) tr2)))"

text \<open>
  \<^verbatim>\<open>if not username\<close> holds for \<^verbatim>\<open>None\<close> and for the empty string; the user name then
  comes from the identity endpoint, whose answer is used as it is.
\<close>

definition resolve_user ::
  "(event list \<Rightarrow> event list \<times> (error + json)) \<Rightarrow> string option \<Rightarrow> event list
   \<Rightarrow> event list \<times> (error + json)" where
  "resolve_user whoami username tr =
     (case username of
        None \<Rightarrow> whoami tr
      | Some u \<Rightarrow> if u = [] then whoami tr else (tr, Inr (JStr u)))"

definition fetch_public_repos ::
  "lib \<Rightarrow> http \<Rightarrow> github_indexer \<Rightarrow> string option \<Rightarrow> event list
   \<Rightarrow> (event list \<times> (error + project list)) option" where
  "fetch_public_repos L http ix username tr =
     (case resolve_user (gh_get_authenticated_user http ix) username tr of
        (tr0, Inl e) \<Rightarrow> Some (tr0, Inl e)
      | (tr0, Inr user) \<Rightarrow>
          (let u = py_format L user;
               tr1 = tr0 @ [Log INFO ''Fetching public repositories for {username}'' [ArgJson user]]
           in case repos_loop L http ix u 1 [] tr1 of
                None \<Rightarrow> None
              | Some (tr2, Inl e) \<Rightarrow> Some (tr2, Inl e)
              | Some (tr2, Inr ps) \<Rightarrow>
                  Some (tr2 @ [Log INFO ''Total public repositories fetched: {len(projects)}''
                                 [ArgInt (int (length ps))]],
                        Inr ps)))"

text \<open>
  \<^verbatim>\<open>list(d.keys())[0]\<close> and \<^verbatim>\<open>list(d.values())[0]\<close>: only a dictionary has \<^verbatim>\<open>keys\<close>
  and \<^verbatim>\<open>values\<close>; an empty one has no first entry.
\<close>

fun first_key :: "json \<Rightarrow> error + json" where
  "first_key (JObj []) = Inl IndexError"
| "first_key (JObj (kv # d)) = Inr (JStr (fst kv))"
| "first_key j = Inl AttributeError"

fun first_value :: "json \<Rightarrow> error + json" where
  "first_value (JObj []) = Inl IndexError"
| "first_value (JObj (kv # d)) = Inr (snd kv)"
| "first_value j = Inl AttributeError"

text \<open>The body of \<^verbatim>\<open>for gist in gists\<close>.\<close>

definition gist_to_project :: "lib \<Rightarrow> string \<Rightarrow> json \<Rightarrow> error + project option" where
  "gist_to_project L username gist =
     ebind (py_get gist ''public'' (JBool True)) (\<lambda>public.
     if \<not> truthy public then Inr None
     else
       ebind (py_get gist ''description'' JNull) (\<lambda>d0.
       ebind (py_get gist ''files'' JNull) (\<lambda>files.
       ebind (if \<not> truthy d0 \<and> truthy files
              then ebind (first_key files) (\<lambda>first_file.
                     Inr (JStr (''Gist containing '' @ py_format L first_file)))
              else Inr d0) (\<lambda>ds.
       ebind (if truthy files
              then ebind (first_value files) (\<lambda>first_file_data.
                     py_get first_file_data ''language'' JNull)
              else Inr JNull) (\<lambda>lg.
       ebind (py_getitem gist ''id'') (\<lambda>gid.
       ebind (py_getitem gist ''html_url'') (\<lambda>ur.
       ebind (py_getitem gist ''created_at'') (\<lambda>c.
       ebind (py_replace_Z c) (\<lambda>cs.
       ebind (py_fromisoformat L cs) (\<lambda>ca.
       ebind (py_getitem gist ''updated_at'') (\<lambda>u.
       ebind (py_replace_Z u) (\<lambda>us.
       ebind (py_fromisoformat L us) (\<lambda>ua.
       ebind (Project_init (JStr ''GitHub'') (JStr ''Gist'') gid
                (JStr (username @ ''/gist:'' @ py_format L gid)) ds ur
                (Some ca) (Some ua) lg (JArr [])) (\<lambda>p.
       Inr (Some p)))))))))))))))"

definition gists_request :: "github_indexer \<Rightarrow> string \<Rightarrow> int \<Rightarrow> request" where
  "gists_request ix username page =
     \<lparr>req_url = gh_base_url ix @ ''/users/'' @ username @ ''/gists'',
      req_params = [(''per_page'', JInt 100), (''page'', JInt page)],
      req_headers = gh_headers ix\<rparr>"

partial_function (option) gists_loop ::
  "lib \<Rightarrow> http \<Rightarrow> github_indexer \<Rightarrow> string \<Rightarrow> int \<Rightarrow> project list \<Rightarrow> event list
   \<Rightarrow> (event list \<times> (error + project list)) option" where
  "gists_loop L http ix username page acc tr =
     (let req = gists_request ix username page;
          tr1 = tr @ [Request req]
      in case http req of
           Inl e \<Rightarrow> Some (tr1, Inl e)
         | Inr gists \<Rightarrow>
             if \<not> truthy gists then Some (tr1, Inr acc)
             else
               (case ebind (py_iter gists) (collect (gist_to_project L username)) of
                  Inl e \<Rightarrow> Some (tr1, Inl e)
                | Inr new \<Rightarrow>
                    (case py_len gists of
                       Inl e \<Rightarrow> Some (tr1, Inl e)
                     | Inr n \<Rightarrow>
                         let tr2 = tr1 @ [Log INFO ''Fetched page {page} ({len(gists)} gists)''
                                            [ArgInt page, ArgInt n]]
                         in if n < 100 then Some (tr2, Inr (acc @ new))
                            else gists_loop L http ix username (page + 1)
                                   (acc @ new) tr2)))"

definition fetch_public_gists ::
  "lib \<Rightarrow> http \<Rightarrow> github_indexer \<Rightarrow> string option \<Rightarrow> event list
   \<Rightarrow> (event list \<times> (error + project list)) option" where
  "fetch_public_gists L http ix username tr =
     (case resolve_user (gh_get_authenticated_user http ix) username tr of
        (tr0, Inl e) \<Rightarrow> Some (tr0, Inl e)
      | (tr0, Inr user) \<Rightarrow>
          (let u = py_format L user;
               tr1 = tr0 @ [Log INFO ''Fetching public gists for {username}'' [ArgJson user]]
           in case gists_loop L http ix u 1 [] tr1 of
                None \<Rightarrow> None
              | Some (tr2, Inl e) \<Rightarrow> Some (tr2, Inl e)
              | Some (tr2, Inr ps) \<Rightarrow>
                  Some (tr2 @ [Log INFO ''Total public gists fetched: {len(projects)}''
                                 [ArgInt (int (length ps))]],
                        Inr ps)))"

definition check_rate_limit ::
  "http \<Rightarrow> github_indexer \<Rightarrow> event list \<Rightarrow> event list \<times> (error + json)" where
  "check_rate_limit http ix tr =
     (let req = \<lparr>req_url = gh_base_url ix @ ''/rate_limit'', req_params = [],
                 req_headers = gh_headers ix\<rparr>
      in (tr @ [Request req], http req))"

section \<open>huggingface\_indexer.py\<close>

record hf_indexer =
  hf_api_key :: string
  hf_base_url :: string
  hf_headers :: "(string \<times> string) list"

definition HuggingFaceIndexer_init ::
  "(string \<Rightarrow> string option) \<Rightarrow> string option \<Rightarrow> error + hf_indexer" where
  "HuggingFaceIndexer_init env api_key =
     (case or_getenv api_key (env ''HF_CLI'') of
        None \<Rightarrow> Inl ValueError
      | Some k \<Rightarrow>
          if k = [] then Inl ValueError
          else Inr \<lparr>hf_api_key = k, hf_base_url = ''https://huggingface.co/api'',
                    hf_headers = [(''Authorization'', ''Bearer '' @ k)]\<rparr>)"

definition hf_get_authenticated_user ::
  "http \<Rightarrow> hf_indexer \<Rightarrow> event list \<Rightarrow> event list \<times> (error + json)" where
  "hf_get_authenticated_user http ix tr =
     (let req = \<lparr>req_url = hf_base_url ix @ ''/whoami-v2'', req_params = [],
                 req_headers = hf_headers ix\<rparr>
      in (tr @ [Request req], ebind (http req) (\<lambda>body. py_getitem body ''name'')))"

text \<open>
  \<^verbatim>\<open>_parse_datetime\<close>: the \<^verbatim>\<open>try\<close> block can raise \<^verbatim>\<open>AttributeError\<close> (the value
  has no \<^verbatim>\<open>replace\<close>) and \<^verbatim>\<open>ValueError\<close> (\<^verbatim>\<open>fromisoformat\<close> refuses the text); the
  \<^verbatim>\<open>except\<close> clause turns these two into \<^verbatim>\<open>None\<close> and lets any other exception pass.
\<close>

definition parse_datetime :: "lib \<Rightarrow> json \<Rightarrow> error + datetime option" where
  "parse_datetime L date_str =
     (if \<not> truthy date_str then Inr None
      else
        (case ebind (py_replace_Z date_str) (py_fromisoformat L) of
           Inl e \<Rightarrow> if e = ValueError \<or> e = AttributeError then Inr None else Inl e
         | Inr d \<Rightarrow> Inr (Some d)))"

text \<open>
  \<^verbatim>\<open>"/" in v\<close>: a substring test on a string, a membership test on a list, a key test
  on a dictionary, \<^verbatim>\<open>TypeError\<close> on the other values.
\<close>

fun contains_slash :: "json \<Rightarrow> error + bool" where
  "contains_slash (JStr s) = Inr (CHR ''/'' \<in> set s)"
| "contains_slash (JArr xs) = Inr (JStr ''/'' \<in> set xs)"
| "contains_slash (JObj d) = Inr (''/'' \<in> fst ` set d)"
| "contains_slash j = Inl TypeError"

text \<open>\<^verbatim>\<open>v.split("/")[-1]\<close>: what follows the last \<^verbatim>\<open>/\<close>; only a string has \<^verbatim>\<open>split\<close>.\<close>

definition last_segment :: "string \<Rightarrow> string" where
  "last_segment s = rev (takeWhile (\<lambda>c. c \<noteq> CHR ''/'') (rev s))"

fun split_last :: "json \<Rightarrow> error + json" where
  "split_last (JStr s) = Inr (JStr (last_segment s))"
| "split_last j = Inl AttributeError"

text \<open>
  The body of the \<^verbatim>\<open>for\<close> loop of the three category fetches. They differ in the
  value of \<^verbatim>\<open>type\<close>, in the prefix of the URL and in the field that becomes
  \<^verbatim>\<open>language\<close> (\<^verbatim>\<open>pipeline_tag\<close> for a model, nothing for a dataset, \<^verbatim>\<open>sdk\<close> for a
  space).
\<close>

definition hf_item_to_project ::
  "lib \<Rightarrow> string \<Rightarrow> string \<Rightarrow> string option \<Rightarrow> json \<Rightarrow> error + project option" where
  "hf_item_to_project L ty url_prefix language_field item =
     ebind (py_get item ''private'' (JBool False)) (\<lambda>private.
     if truthy private then Inr None
     else
       ebind (py_getitem item ''id'') (\<lambda>item_id.
       ebind (contains_slash item_id) (\<lambda>has_slash.
       ebind (if has_slash then split_last item_id else Inr item_id) (\<lambda>nm.
       ebind (py_get item ''cardData'' (JObj [])) (\<lambda>card.
       ebind (py_get card ''description'' JNull) (\<lambda>d1.
       ebind (if truthy d1 then Inr d1 else py_get item ''description'' JNull) (\<lambda>ds.
       ebind (py_get item ''createdAt'' JNull) (\<lambda>c.
       ebind (parse_datetime L c) (\<lambda>ca.
       ebind (py_get item ''lastModified'' JNull) (\<lambda>u.
       ebind (parse_datetime L u) (\<lambda>ua.
       ebind (case language_field of
                None \<Rightarrow> Inr JNull
              | Some k \<Rightarrow> py_get item k JNull) (\<lambda>lg.
       ebind (py_get item ''tags'' (JArr [])) (\<lambda>tp.
       ebind (Project_init (JStr ''HuggingFace'') (JStr ty) nm item_id ds
                (JStr (url_prefix @ py_format L item_id)) ca ua lg tp) (\<lambda>p.
       Inr (Some p)))))))))))))))"

definition model_to_project :: "lib \<Rightarrow> json \<Rightarrow> error + project option" where
  "model_to_project L =
     hf_item_to_project L ''Model'' ''https://huggingface.co/'' (Some ''pipeline_tag'')"

definition dataset_to_project :: "lib \<Rightarrow> json \<Rightarrow> error + project option" where
  "dataset_to_project L =
     hf_item_to_project L ''Dataset'' ''https://huggingface.co/datasets/'' None"

definition space_to_project :: "lib \<Rightarrow> json \<Rightarrow> error + project option" where
  "space_to_project L =
     hf_item_to_project L ''Space'' ''https://huggingface.co/spaces/'' (Some ''sdk'')"

text \<open>
  A category fetch sends one request, with \<^verbatim>\<open>limit\<close> 500, and maps the items of its
  answer. There is no loop and no second request.
\<close>

definition hf_request :: "hf_indexer \<Rightarrow> string \<Rightarrow> json \<Rightarrow> request" where
  "hf_request ix category author =
     \<lparr>req_url = hf_base_url ix @ ''/'' @ category,
      req_params = [(''author'', author), (''limit'', JInt 500)],
      req_headers = hf_headers ix\<rparr>"

definition hf_fetch_category ::
  "(json \<Rightarrow> error + project option) \<Rightarrow> string \<Rightarrow> http \<Rightarrow> hf_indexer \<Rightarrow> string option
   \<Rightarrow> event list \<Rightarrow> event list \<times> (error + project list)" where
  "hf_fetch_category to_project category http ix author tr =
     (case resolve_user (hf_get_authenticated_user http ix) author tr of
        (tr0, Inl e) \<Rightarrow> (tr0, Inl e)
      | (tr0, Inr a) \<Rightarrow>
          (let tr1 = tr0 @ [Log INFO (''Fetching public '' @ category @ '' for {author}'')
                              [ArgJson a]];
               req = hf_request ix category a;
               tr2 = tr1 @ [Request req]
           in case ebind (http req) (\<lambda>items. ebind (py_iter items) (collect to_project)) of
                Inl e \<Rightarrow> (tr2, Inl e)
              | Inr ps \<Rightarrow>
                  (tr2 @ [Log INFO (''Total public '' @ category @ '' fetched: {len(projects)}'')
                            [ArgInt (int (length ps))]],
                   Inr ps)))"

definition fetch_public_models ::
  "lib \<Rightarrow> http \<Rightarrow> hf_indexer \<Rightarrow> string option \<Rightarrow> event list
   \<Rightarrow> event list \<times> (error + project list)" where
  "fetch_public_models L = hf_fetch_category (model_to_project L) ''models''"

definition fetch_public_datasets ::
  "lib \<Rightarrow> http \<Rightarrow> hf_indexer \<Rightarrow> string option \<Rightarrow> event list
   \<Rightarrow> event list \<times> (error + project list)" where
  "fetch_public_datasets L = hf_fetch_category (dataset_to_project L) ''datasets''"

definition fetch_public_spaces ::
  "lib \<Rightarrow> http \<Rightarrow> hf_indexer \<Rightarrow> string option \<Rightarrow> event list
   \<Rightarrow> event list \<times> (error + project list)" where
  "fetch_public_spaces L = hf_fetch_category (space_to_project L) ''spaces''"

text \<open>
  \<^verbatim>\<open>fetch_all\<close>: each category in its own \<^verbatim>\<open>try\<close>; a category that raises is logged
  and adds nothing.
\<close>

definition extend_or_log ::
  "string \<Rightarrow> project list \<Rightarrow> event list \<times> (error + project list)
   \<Rightarrow> event list \<times> project list" where
  "extend_or_log msg all_projects r =
     (case r of
        (tr, Inl e) \<Rightarrow> (tr @ [Log ERROR msg [ArgErr e]], all_projects)
      | (tr, Inr ps) \<Rightarrow> (tr, all_projects @ ps))"

definition fetch_all ::
  "lib \<Rightarrow> http \<Rightarrow> hf_indexer \<Rightarrow> string option \<Rightarrow> event list \<Rightarrow> event list \<times> project list" where
  "fetch_all L http ix author tr =
     (case extend_or_log ''Error fetching models: {e}'' []
             (fetch_public_models L http ix author tr) of
        (tr1, all1) \<Rightarrow>
     (case extend_or_log ''Error fetching datasets: {e}'' all1
             (fetch_public_datasets L http ix author tr1) of
        (tr2, all2) \<Rightarrow>
      extend_or_log ''Error fetching spaces: {e}'' all2
        (fetch_public_spaces L http ix author tr2)))"

section \<open>index\_projects.py\<close>

subsection \<open>Files\<close>

text \<open>
  A path is the list of its components below the project root; the root itself is a
  directory. A path holds nothing, a directory, or a file. A file is modelled by what
  reading it gives: \<open>Doc j\<close> is a file that \<^verbatim>\<open>json.load\<close> decodes to \<open>j\<close>,
  \<open>Garbage\<close> one that it refuses, \<open>Locked\<close> one that \<^verbatim>\<open>open\<close> refuses. \<open>Denied\<close> is a
  path that the system does not let the process look at: \<^verbatim>\<open>stat\<close> fails on it with an
  error other than the four that say the path is not there (\<^verbatim>\<open>EACCES\<close> below a
  directory without search permission, \<^verbatim>\<open>ENAMETOOLONG\<close>, \<^verbatim>\<open>EIO\<close>), and so do
  \<^verbatim>\<open>open\<close> and \<^verbatim>\<open>mkdir\<close>. The log file of \<^verbatim>\<open>logging.basicConfig\<close> is not among the
  paths: what is logged goes to the trace.
\<close>

type_synonym path = "string list"

datatype node = Dir | Locked | Denied | Garbage | Doc json

type_synonym files = "path \<Rightarrow> node option"

definition is_dir :: "files \<Rightarrow> path \<Rightarrow> bool" where
  "is_dir fs p = (p = [] \<or> fs p = Some Dir)"

text \<open>\<^verbatim>\<open>Path.mkdir(exist_ok=True)\<close>\<close>

definition mkdir :: "files \<Rightarrow> path \<Rightarrow> error + files" where
  "mkdir fs p =
     (if is_dir fs p then Inr fs
      else if fs p \<noteq> None then Inl OSError
      else if is_dir fs (butlast p) then Inr (fs(p \<mapsto> Dir))
      else Inl OSError)"

text \<open>\<^verbatim>\<open>with open(p, "w") as f:\<close> followed by the writing of a JSON text.\<close>

definition write_json :: "files \<Rightarrow> path \<Rightarrow> json \<Rightarrow> error + files" where
  "write_json fs p j =
     (if is_dir fs p \<or> fs p = Some Locked \<or> fs p = Some Denied \<or> \<not> is_dir fs (butlast p)
      then Inl OSError
      else Inr (fs(p \<mapsto> Doc j)))"

text \<open>\<^verbatim>\<open>with open(p, "r") as f: data = json.load(f)\<close>\<close>

definition read_json :: "files \<Rightarrow> path \<Rightarrow> error + json" where
  "read_json fs p =
     (if p = [] then Inl OSError
      else case fs p of
             None \<Rightarrow> Inl OSError
           | Some Dir \<Rightarrow> Inl OSError
           | Some Locked \<Rightarrow> Inl OSError
           | Some Denied \<Rightarrow> Inl OSError
           | Some Garbage \<Rightarrow> Inl ValueError
           | Some (Doc j) \<Rightarrow> Inr j)"

text \<open>
  \<^verbatim>\<open>Path.exists()\<close> calls \<^verbatim>\<open>stat\<close>. It answers \<^verbatim>\<open>False\<close> when \<^verbatim>\<open>stat\<close> fails with
  \<^verbatim>\<open>ENOENT\<close>, \<^verbatim>\<open>ENOTDIR\<close>, \<^verbatim>\<open>EBADF\<close> or \<^verbatim>\<open>ELOOP\<close>, and raises every other
  \<^verbatim>\<open>OSError\<close> again.
\<close>

definition path_exists :: "files \<Rightarrow> path \<Rightarrow> error + bool" where
  "path_exists fs p =
     (if p = [] then Inr True
      else case fs p of
             None \<Rightarrow> Inr False
           | Some Denied \<Rightarrow> Inl OSError
           | Some n \<Rightarrow> Inr True)"

subsection \<open>Snapshots\<close>

text \<open>
  \<^verbatim>\<open>model_dump_json\<close>: the fields in the order of their declaration, \<^verbatim>\<open>None\<close> as
  \<^verbatim>\<open>null\<close>, a timestamp as the string \<open>isoformat\<close> makes of it.
\<close>

definition opt_str_json :: "string option \<Rightarrow> json" where
  "opt_str_json v = (case v of None \<Rightarrow> JNull | Some s \<Rightarrow> JStr s)"

definition opt_datetime_json :: "(datetime \<Rightarrow> string) \<Rightarrow> datetime option \<Rightarrow> json" where
  "opt_datetime_json render v = (case v of None \<Rightarrow> JNull | Some d \<Rightarrow> JStr (render d))"

definition project_dump :: "(datetime \<Rightarrow> string) \<Rightarrow> project \<Rightarrow> json" where
  "project_dump render p =
     JObj [(''source'', JStr (source p)),
           (''type'', JStr (type' p)),
           (''name'', JStr (name p)),
           (''full_name'', JStr (full_name p)),
           (''description'', opt_str_json (description p)),
           (''url'', JStr (url p)),
           (''created_at'', opt_datetime_json render (created_at p)),
           (''updated_at'', opt_datetime_json render (updated_at p)),
           (''language'', opt_str_json (language p)),
           (''topics'', JArr (map JStr (topics p)))]"

definition to_json :: "lib \<Rightarrow> project_index \<Rightarrow> json" where
  "to_json L idx =
     JObj [(''metadata'', JObj (metadata idx)),
           (''projects'', JArr (map (project_dump (isoformat L)) (projects idx)))]"

text \<open>
  \<^verbatim>\<open>Project(**d)\<close> and \<^verbatim>\<open>ProjectIndex(**data)\<close>, as pydantic validates what
  \<^verbatim>\<open>json.load\<close> returned: a required field must be present, an absent optional field
  takes its default, a field the model does not declare is ignored. \<^verbatim>\<open>**data\<close> needs a
  dictionary and raises \<^verbatim>\<open>TypeError\<close> on any other value.
\<close>

definition required :: "(string \<times> json) list \<Rightarrow> string \<Rightarrow> (json \<Rightarrow> 'a option) \<Rightarrow> 'a option" where
  "required d k validate = (case map_of d k of None \<Rightarrow> None | Some v \<Rightarrow> validate v)"

definition optional ::
  "(string \<times> json) list \<Rightarrow> string \<Rightarrow> (json \<Rightarrow> 'a option) \<Rightarrow> 'a \<Rightarrow> 'a option" where
  "optional d k validate dflt = (case map_of d k of None \<Rightarrow> Some dflt | Some v \<Rightarrow> validate v)"

fun Project_validate :: "lib \<Rightarrow> json \<Rightarrow> project option" where
  "Project_validate L (JObj d) =
     do {
       src \<leftarrow> required d ''source'' validate_str;
       ty \<leftarrow> required d ''type'' validate_str;
       nm \<leftarrow> required d ''name'' validate_str;
       fn \<leftarrow> required d ''full_name'' validate_str;
       ds \<leftarrow> optional d ''description'' validate_opt_str None;
       ur \<leftarrow> required d ''url'' validate_str;
       ca \<leftarrow> optional d ''created_at'' (validate_opt_datetime L) None;
       ua \<leftarrow> optional d ''updated_at'' (validate_opt_datetime L) None;
       lg \<leftarrow> optional d ''language'' validate_opt_str None;
       tp \<leftarrow> optional d ''topics'' validate_str_list [];
       Some \<lparr>source = src, type' = ty, name = nm, full_name = fn, description = ds,
             url = ur, created_at = ca, updated_at = ua, language = lg, topics = tp\<rparr>
     }"
| "Project_validate L j = None"

fun validate_metadata :: "json \<Rightarrow> (string \<times> json) list option" where
  "validate_metadata (JObj d) = Some d"
| "validate_metadata j = None"

fun validate_projects :: "lib \<Rightarrow> json \<Rightarrow> project list option" where
  "validate_projects L (JArr xs) = those (map (Project_validate L) xs)"
| "validate_projects L j = None"

fun ProjectIndex_validate :: "lib \<Rightarrow> string \<Rightarrow> json \<Rightarrow> error + project_index" where
  "ProjectIndex_validate L now (JObj d) =
     (case do {
             m \<leftarrow> optional d ''metadata'' validate_metadata (metadata (ProjectIndex_new now));
             ps \<leftarrow> optional d ''projects'' (validate_projects L) [];
             Some \<lparr>metadata = m, projects = ps\<rparr>
           } of
        None \<Rightarrow> Inl ValidationError
      | Some index \<Rightarrow> Inr index)"
| "ProjectIndex_validate L now j = Inl TypeError"

text \<open>
  \<^verbatim>\<open>load_existing_index\<close>. The test \<^verbatim>\<open>output_file.exists()\<close> stands before the
  \<^verbatim>\<open>try\<close> block, so an exception it raises leaves the function. When the file does not
  exist the result is \<^verbatim>\<open>None\<close>; otherwise the \<^verbatim>\<open>try\<close> block reads, decodes and
  validates, and \<^verbatim>\<open>except Exception\<close> turns whatever it raises into a warning and
  \<^verbatim>\<open>None\<close>.
\<close>

definition load_existing_index ::
  "lib \<Rightarrow> string \<Rightarrow> files \<Rightarrow> path \<Rightarrow> event list
   \<Rightarrow> event list \<times> (error + project_index option)" where
  "load_existing_index L now fs output_file tr =
     (case path_exists fs output_file of
        Inl e \<Rightarrow> (tr, Inl e)
      | Inr found \<Rightarrow>
          if \<not> found then (tr, Inr None)
          else
            (case ebind (read_json fs output_file) (ProjectIndex_validate L now) of
               Inr index \<Rightarrow>
                 (tr @ [Log INFO ''Loaded existing index with {len(index.projects)} projects''
                          [ArgInt (int (length (projects index)))]],
                  Inr (Some index))
             | Inl e \<Rightarrow>
                 (tr @ [Log WARNING ''Could not load existing index: {e}'' [ArgErr e]],
                  Inr None)))"

text \<open>
  \<^verbatim>\<open>save_index\<close>: the metadata is brought up to date, then the file is written. An
  assignment to a key of a dictionary keeps the place of a key that is there and appends
  a new one.
\<close>

fun count_types :: "project list \<Rightarrow> (string \<times> int) list \<Rightarrow> (string \<times> int) list" where
  "count_types [] type_counts = type_counts"
| "count_types (p # ps) type_counts =
     count_types ps
       (AList.update (type' p)
          ((case map_of type_counts (type' p) of None \<Rightarrow> 0 | Some n \<Rightarrow> n) + 1)
          type_counts)"

definition update_metadata :: "string \<Rightarrow> project_index \<Rightarrow> project_index" where
  "update_metadata now idx =
     (let github_count = int (length (get_by_source idx ''GitHub''));
          hf_count = int (length (get_by_source idx ''HuggingFace''));
          m1 = AList.update ''generated_at'' (JStr now) (metadata idx);
          m2 = AList.update ''total_projects'' (JInt (int (length (projects idx)))) m1;
          m3 = AList.update ''sources''
                 (JObj [(''GitHub'', JInt github_count), (''HuggingFace'', JInt hf_count)]) m2;
          m4 = AList.update ''types''
                 (JObj (map (\<lambda>kv. (fst kv, JInt (snd kv))) (count_types (projects idx) []))) m3
      in idx\<lparr>metadata := m4\<rparr>)"

definition path_str :: "path \<Rightarrow> string" where
  "path_str p = concat (map (\<lambda>c. ''/'' @ c) p)"

text \<open>
  The steps that write take the files and the trace and return them as they are when
  the step ends, with the exception if it ended by one.
\<close>

type_synonym state = "files \<times> event list"

definition save_index ::
  "lib \<Rightarrow> string \<Rightarrow> project_index \<Rightarrow> path \<Rightarrow> state \<Rightarrow> state \<times> (error + project_index)" where
  "save_index L now idx output_file st =
     (let idx' = update_metadata now idx
      in case write_json (fst st) output_file (to_json L idx') of
           Inl e \<Rightarrow> (st, Inl e)
         | Inr fs' \<Rightarrow>
             ((fs',
               snd st @
                 [Log INFO ''Index saved to {output_file}'' [ArgStr (path_str output_file)],
                  Log INFO ''Total projects: {len(index.projects)}''
                    [ArgInt (int (length (projects idx')))],
                  Log INFO ''  GitHub: {github_count}''
                    [ArgInt (int (length (get_by_source idx' ''GitHub'')))],
                  Log INFO ''  HuggingFace: {hf_count}''
                    [ArgInt (int (length (get_by_source idx' ''HuggingFace'')))]]),
              Inr idx'))"

text \<open>
  \<^verbatim>\<open>create_organized_output\<close>: one file for each pair of source and type that has
  projects, in the order of the source. \<^verbatim>\<open>json.dump(..., default=str)\<close> writes a
  timestamp as \<open>str_datetime\<close> renders it. An exception ends the function; the files
  written before it stay.
\<close>

definition export_category ::
  "lib \<Rightarrow> project_index \<Rightarrow> path \<Rightarrow> string \<Rightarrow> string \<Rightarrow> string \<Rightarrow> string
   \<Rightarrow> state \<Rightarrow> state \<times> error option" where
  "export_category L idx output_dir src ty file_name msg st =
     (let selected = filter (\<lambda>p. source p = src \<and> type' p = ty) (projects idx)
      in if selected = [] then (st, None)
         else
           (case write_json (fst st) (output_dir @ [file_name])
                   (JArr (map (project_dump (str_datetime L)) selected)) of
              Inl e \<Rightarrow> (st, Some e)
            | Inr fs' \<Rightarrow>
                ((fs', snd st @ [Log INFO msg
                                   [ArgInt (int (length selected)),
                                    ArgStr (path_str (output_dir @ [file_name]))]]),
                 None)))"

definition and_then ::
  "state \<times> error option \<Rightarrow> (state \<Rightarrow> state \<times> error option) \<Rightarrow> state \<times> error option" where
  "and_then r f = (case snd r of None \<Rightarrow> f (fst r) | Some e \<Rightarrow> r)"

definition create_organized_output ::
  "lib \<Rightarrow> project_index \<Rightarrow> path \<Rightarrow> state \<Rightarrow> state \<times> error option" where
  "create_organized_output L idx output_dir st =
     (case mkdir (fst st) output_dir of
        Inl e \<Rightarrow> (st, Some e)
      | Inr fs0 \<Rightarrow>
          and_then (and_then (and_then (and_then
            (export_category L idx output_dir ''GitHub'' ''Repository''
               ''github_repositories.json''
               ''Saved {len(github_repos)} GitHub repositories to {github_file}''
               (fs0, snd st))
            (export_category L idx output_dir ''GitHub'' ''Gist''
               ''github_gists.json''
               ''Saved {len(github_gists)} GitHub gists to {gists_file}''))
            (export_category L idx output_dir ''HuggingFace'' ''Model''
               ''huggingface_models.json''
               ''Saved {len(hf_models)} HuggingFace models to {models_file}''))
            (export_category L idx output_dir ''HuggingFace'' ''Dataset''
               ''huggingface_datasets.json''
               ''Saved {len(hf_datasets)} HuggingFace datasets to {datasets_file}''))
            (export_category L idx output_dir ''HuggingFace'' ''Space''
               ''huggingface_spaces.json''
               ''Saved {len(hf_spaces)} HuggingFace spaces to {spaces_file}''))"

subsection \<open>main\<close>

text \<open>
  What a run finds: the environment after \<^verbatim>\<open>load_dotenv\<close>, the remote side, the files
  below the project root, and the two readings of the clock (for \<^verbatim>\<open>ProjectIndex()\<close>
  and for \<^verbatim>\<open>save_index\<close>).
\<close>

record world =
  env :: "string \<Rightarrow> string option"
  remote :: http
  disk :: files
  now_new :: string
  now_save :: string

definition data_dir :: path where
  "data_dir = [''data'']"

definition output_file :: path where
  "output_file = data_dir @ [''project_index.json'']"

definition organized_dir :: path where
  "organized_dir = data_dir @ [''organized'']"

text \<open>
  One \<^verbatim>\<open>try\<close> block of \<^verbatim>\<open>main\<close> after its fetch: merge what was fetched and log the
  counts, or log the exception of the fetch. \<open>merge_projects\<close> is inside the \<^verbatim>\<open>try\<close>
  too; it never raises (lemma \<open>merge_loop_foldl\<close>), and the model leaves the index as
  it was on that branch.
\<close>

definition merge_fetched ::
  "string \<Rightarrow> string \<Rightarrow> project_index \<Rightarrow> event list \<times> (error + project list)
   \<Rightarrow> project_index \<times> event list" where
  "merge_fetched ok_msg err_msg index r =
     (case ebind (snd r) (merge_projects index) of
        Inl e \<Rightarrow> (index, fst r @ [Log ERROR err_msg [ArgErr e]])
      | Inr (index', stats) \<Rightarrow>
          (index', fst r @ [Log INFO ok_msg [ArgInt (added stats), ArgInt (updated stats)]]))"

definition log_rate_limit :: "event list \<times> (error + json) \<Rightarrow> event list" where
  "log_rate_limit r =
     (case ebind (snd r) (\<lambda>rate_limit.
             ebind (py_getitem rate_limit ''rate'') (\<lambda>rate. py_getitem rate ''remaining'')) of
        Inl e \<Rightarrow> fst r @ [Log ERROR ''Error checking rate limit: {e}'' [ArgErr e]]
      | Inr remaining \<Rightarrow>
          fst r @ [Log INFO ''GitHub API rate limit remaining: {remaining}''
                     [ArgJson remaining]])"

definition github_phase ::
  "lib \<Rightarrow> http \<Rightarrow> github_indexer option \<Rightarrow> project_index \<Rightarrow> event list
   \<Rightarrow> (project_index \<times> event list) option" where
  "github_phase L http gh index tr =
     (case gh of
        None \<Rightarrow> Some (index, tr)
      | Some ix \<Rightarrow>
          (case fetch_public_repos L http ix None
                  (tr @ [Log INFO ''Fetching GitHub repositories...'' []]) of
             None \<Rightarrow> None
           | Some r1 \<Rightarrow>
               (case merge_fetched
                       ''GitHub Repositories: {merge_stats['added']} added, {merge_stats['updated']} updated''
                       ''Error fetching GitHub repositories: {e}'' index r1 of
                  (index1, tr1) \<Rightarrow>
               (case fetch_public_gists L http ix None
                       (tr1 @ [Log INFO ''Fetching GitHub gists...'' []]) of
                  None \<Rightarrow> None
                | Some r2 \<Rightarrow>
                    (case merge_fetched
                            ''GitHub Gists: {merge_stats['added']} added, {merge_stats['updated']} updated''
                            ''Error fetching GitHub gists: {e}'' index1 r2 of
                       (index2, tr2) \<Rightarrow>
                         Some (index2, log_rate_limit (check_rate_limit http ix tr2)))))))"

definition hf_phase ::
  "lib \<Rightarrow> http \<Rightarrow> hf_indexer option \<Rightarrow> project_index \<Rightarrow> event list
   \<Rightarrow> project_index \<times> event list" where
  "hf_phase L http hf index tr =
     (case hf of
        None \<Rightarrow> (index, tr)
      | Some ix \<Rightarrow>
          (case fetch_all L http ix None
                  (tr @ [Log INFO ''Fetching HuggingFace resources...'' []]) of
             (tr1, hf_projects) \<Rightarrow>
               merge_fetched
                 ''HuggingFace: {merge_stats['added']} added, {merge_stats['updated']} updated''
                 ''Error fetching HuggingFace projects: {e}'' index (tr1, Inr hf_projects)))"

text \<open>
  The end of \<^verbatim>\<open>main\<close>: sort, save, export. None of the three is inside a \<^verbatim>\<open>try\<close>, so
  an exception of any of them ends the run.
\<close>

definition finish :: "lib \<Rightarrow> string \<Rightarrow> project_index \<Rightarrow> state \<Rightarrow> state \<times> error option" where
  "finish L now index st =
     (case sort_by_date index True of
        Inl e \<Rightarrow> (st, Some e)
      | Inr sorted_index \<Rightarrow>
          (case save_index L now sorted_index output_file st of
             (st1, Inl e) \<Rightarrow> (st1, Some e)
           | (st1, Inr saved) \<Rightarrow>
               (case create_organized_output L saved organized_dir st1 of
                  (st2, Some e) \<Rightarrow> (st2, Some e)
                | (st2, None) \<Rightarrow>
                    ((fst st2,
                      snd st2 @ [Log INFO (replicate 60 (CHR ''='')) [],
                                 Log INFO ''Indexing complete!'' [],
                                 Log INFO (replicate 60 (CHR ''='')) []]),
                     None))))"

definition init_github :: "(string \<Rightarrow> string option) \<Rightarrow> event list \<Rightarrow> github_indexer option \<times> event list" where
  "init_github e tr =
     (case GitHubIndexer_init e None of
        Inr ix \<Rightarrow> (Some ix, tr @ [Log INFO ''GitHub indexer initialized'' []])
      | Inl err \<Rightarrow>
          (None, tr @ [Log ERROR ''Failed to initialize GitHub indexer: {e}'' [ArgErr err]]))"

definition init_hf :: "(string \<Rightarrow> string option) \<Rightarrow> event list \<Rightarrow> hf_indexer option \<times> event list" where
  "init_hf e tr =
     (case HuggingFaceIndexer_init e None of
        Inr ix \<Rightarrow> (Some ix, tr @ [Log INFO ''HuggingFace indexer initialized'' []])
      | Inl err \<Rightarrow>
          (None, tr @ [Log ERROR ''Failed to initialize HuggingFace indexer: {e}'' [ArgErr err]]))"

text \<open>
  The index a run starts from: the one \<^verbatim>\<open>load_existing_index\<close> returns, or a new one
  (\<^verbatim>\<open>if index:\<close> holds for every index that was loaded). The call is not inside a
  \<^verbatim>\<open>try\<close>, so an exception of \<^verbatim>\<open>load_existing_index\<close> ends the run.
\<close>

definition start_index ::
  "lib \<Rightarrow> string \<Rightarrow> files \<Rightarrow> event list \<Rightarrow> (error + project_index) \<times> event list" where
  "start_index L now fs tr =
     (case load_existing_index L now fs output_file tr of
        (tr3, loaded) \<Rightarrow>
          (case loaded of
             Inl e \<Rightarrow> (Inl e, tr3)
           | Inr (Some existing) \<Rightarrow>
               (Inr existing, tr3 @ [Log INFO ''Using existing index for incremental update'' []])
           | Inr None \<Rightarrow>
               (Inr (ProjectIndex_new now), tr3 @ [Log INFO ''Creating new index'' []])))"

text \<open>
  \<^verbatim>\<open>main\<close>. The result is the files and the trace at the end of the run, with the
  exception that ended it if one did; \<open>None\<close> is a run that never ends (a fetch that
  pages for ever).
\<close>

definition main :: "lib \<Rightarrow> world \<Rightarrow> (state \<times> error option) option" where
  "main L w =
     (let tr0 = [Log INFO (replicate 60 (CHR ''='')) [],
                 Log INFO ''Starting project indexing'' [],
                 Log INFO (replicate 60 (CHR ''='')) []]
      in case mkdir (disk w) data_dir of
           Inl e \<Rightarrow> Some ((disk w, tr0), Some e)
         | Inr fs1 \<Rightarrow>
             (case init_github (env w) tr0 of
                (github_indexer, tr1) \<Rightarrow>
             (case init_hf (env w) tr1 of
                (hf_indexer, tr2) \<Rightarrow>
                  if github_indexer = None \<and> hf_indexer = None
                  then Some ((fs1, tr2 @ [Log ERROR ''No indexers could be initialized. Exiting.'' []]),
                             None)
                  else
                    (case start_index L (now_new w) fs1 tr2 of
                       (Inl e, tr4) \<Rightarrow> Some ((fs1, tr4), Some e)
                     | (Inr index0, tr4) \<Rightarrow>
                    (case github_phase L (remote w) github_indexer index0 tr4 of
                       None \<Rightarrow> None
                     | Some (index1, tr5) \<Rightarrow>
                         (case hf_phase L (remote w) hf_indexer index1 tr5 of
                            (index2, tr6) \<Rightarrow>
                              Some (finish L (now_save w) index2 (fs1, tr6))))))))"


section \<open>Auxiliary definitions for the proofs\<close>

text \<open>
  What \<open>merge_project\<close> does to the list of projects: the first project with the key of
  the new one is replaced where it stands; without one, the new project goes to the end.
\<close>

fun upsert :: "project list \<Rightarrow> project \<Rightarrow> project list" where
  "upsert [] n = [n]"
| "upsert (p # ps) n =
     (if get_project_key p = get_project_key n then n # ps else p # upsert ps n)"

definition keys_of :: "project list \<Rightarrow> string list" where
  "keys_of ps = map get_project_key ps"

definition by_key :: "project list \<Rightarrow> string \<rightharpoonup> project" where
  "by_key ps = map_of (map (\<lambda>p. (get_project_key p, p)) ps)"

text \<open>
  The indexes that a run can hold when it starts from \<^verbatim>\<open>ProjectIndex()\<close> and only
  merges, one project or a batch at a time.
\<close>

inductive reachable :: "project_index \<Rightarrow> bool" where
  reachable_empty: "reachable (ProjectIndex_new now)"
| reachable_merge_one:
    "reachable idx \<Longrightarrow> merge_project idx p = Inr (idx', b) \<Longrightarrow> reachable idx'"
| reachable_merge_many:
    "reachable idx \<Longrightarrow> merge_projects idx ps = Inr (idx', st) \<Longrightarrow> reachable idx'"

subsection \<open>Sample records\<close>

definition repo_a :: project where
  "repo_a = \<lparr>source = ''GitHub'', type' = ''Repository'', name = ''a'', full_name = ''u/a'',
     description = None, url = ''https://github.com/u/a'', created_at = None,
     updated_at = None, language = None, topics = []\<rparr>"

definition repo_b :: project where
  "repo_b = \<lparr>source = ''GitHub'', type' = ''Repository'', name = ''b'', full_name = ''u/b'',
     description = None, url = ''https://github.com/u/b'', created_at = None,
     updated_at = None, language = None, topics = []\<rparr>"

definition repo_b2 :: project where
  "repo_b2 = repo_b\<lparr>description := Some ''second fetch'', topics := [''x'']\<rparr>"

definition space_c :: project where
  "space_c = \<lparr>source = ''HuggingFace'', type' = ''Space'', name = ''c'', full_name = ''u/c'',
     description = None, url = ''https://huggingface.co/spaces/u/c'', created_at = None,
     updated_at = None, language = Some ''gradio'', topics = []\<rparr>"

text \<open>
  Two records with a colon in a field. Their pairs of \<open>source\<close> and \<open>full_name\<close>
  differ, and both give the key \<^verbatim>\<open>a:b:c\<close>.
\<close>

definition colon_a :: project where
  "colon_a = \<lparr>source = ''a:b'', type' = ''Repository'', name = ''c'', full_name = ''c'',
     description = None, url = ''https://example.org/c'', created_at = None,
     updated_at = None, language = None, topics = []\<rparr>"

definition colon_b :: project where
  "colon_b = \<lparr>source = ''a'', type' = ''Repository'', name = ''c'', full_name = ''b:c'',
     description = None, url = ''https://example.org/b/c'', created_at = None,
     updated_at = None, language = None, topics = []\<rparr>"

text \<open>
  Two aware timestamps, 2020-01-01T00:00:00+00:00 and 2021-01-01T00:00:00+00:00 (737424
  and 737790 days after 0001-01-01), their naive counterparts, and records that carry
  them.
\<close>

definition utc_2020 :: datetime where
  "utc_2020 = \<lparr>wall = 63713433600000000, utcoffset = Some 0\<rparr>"

definition utc_2021 :: datetime where
  "utc_2021 = \<lparr>wall = 63745056000000000, utcoffset = Some 0\<rparr>"

definition undated :: project where
  "undated = space_c"

definition dated_2020 :: project where
  "dated_2020 = repo_a\<lparr>created_at := Some utc_2020\<rparr>"

definition dated_2021 :: project where
  "dated_2021 = repo_b\<lparr>created_at := Some utc_2021\<rparr>"

text \<open>The keys of a list are mixed when a naive and an aware one are among them.\<close>

definition naive_key :: "project \<Rightarrow> bool" where
  "naive_key p = (utcoffset (created_key p) = None)"

definition mixed_keys :: "project list \<Rightarrow> bool" where
  "mixed_keys ps = ((\<exists>p\<in>set ps. naive_key p) \<and> (\<exists>p\<in>set ps. \<not> naive_key p))"

text \<open>
  The instant a key stands for, and the number by which \<open>list_sort\<close> orders a list whose
  keys are all naive or all aware.
\<close>

definition instant :: "datetime \<Rightarrow> int" where
  "instant d = int (wall d) - (case utcoffset d of None \<Rightarrow> 0 | Some x \<Rightarrow> x)"

definition rank :: "bool \<Rightarrow> project \<Rightarrow> int" where
  "rank reverse p = (if reverse then - instant (created_key p) else instant (created_key p))"

subsection \<open>Pages of the repository listing\<close>






subsection \<open>A simulated remote side\<close>

text \<open>
  A library that reads the one timestamp of the samples, a repository as the listing
  returns it, the record it maps to, and an endpoint that serves pages of 100, 100 and
  37 such repositories and empty pages after them.
\<close>

definition sample_lib :: lib where
  "sample_lib =
     \<lparr>fromisoformat = (\<lambda>s. if s = ''2020-01-01T00:00:00+00:00'' then Some utc_2020 else None),
      isoformat = (\<lambda>d. if d = utc_2020 then ''2020-01-01T00:00:00+00:00'' else []),
      str_datetime = (\<lambda>d. if d = utc_2020 then ''2020-01-01 00:00:00+00:00'' else []),
      validate_datetime = (\<lambda>j. if j = JStr ''2020-01-01T00:00:00+00:00'' then Some utc_2020
                                else None),
      str_json = (\<lambda>j. [])\<rparr>"

definition sample_repo :: json where
  "sample_repo =
     JObj [(''name'', JStr ''r''),
           (''full_name'', JStr ''u/r''),
           (''private'', JBool False),
           (''html_url'', JStr ''https://github.com/u/r''),
           (''description'', JNull),
           (''created_at'', JStr ''2020-01-01T00:00:00Z''),
           (''updated_at'', JStr ''2020-01-01T00:00:00Z''),
           (''language'', JStr ''Python''),
           (''topics'', JArr [JStr ''index''])]"



definition paged_http :: http where
  "paged_http r =
     (case map_of (req_params r) ''page'' of
        Some (JInt k) \<Rightarrow>
          Inr (JArr (replicate (if k = 1 \<or> k = 2 then 100 else if k = 3 then 37 else 0)
                       sample_repo))
      | _ \<Rightarrow> Inl RequestException)"

subsection \<open>A simulated model listing\<close>

text \<open>
  An account's models as the listing endpoint serves them: a request is answered with
  the first \<^verbatim>\<open>limit\<close> items of the account (the rest would need a further request).
  The sample account has 501 public models.
\<close>

definition sample_model :: json where
  "sample_model =
     JObj [(''id'', JStr ''u/m''),
           (''private'', JBool False),
           (''createdAt'', JStr ''2020-01-01T00:00:00Z''),
           (''lastModified'', JStr ''2020-01-01T00:00:00Z''),
           (''pipeline_tag'', JStr ''text-generation''),
           (''tags'', JArr [JStr ''demo''])]"

definition sample_model_record :: project where
  "sample_model_record =
     \<lparr>source = ''HuggingFace'', type' = ''Model'', name = ''m'', full_name = ''u/m'',
      description = None, url = ''https://huggingface.co/u/m'', created_at = Some utc_2020,
      updated_at = Some utc_2020, language = Some ''text-generation'', topics = [''demo'']\<rparr>"

definition sample_hf :: hf_indexer where
  "sample_hf =
     \<lparr>hf_api_key = ''k'', hf_base_url = ''https://huggingface.co/api'',
      hf_headers = [(''Authorization'', ''Bearer k'')]\<rparr>"

definition listing_http :: "json list \<Rightarrow> http" where
  "listing_http account_items r =
     (case map_of (req_params r) ''limit'' of
        Some (JInt l) \<Rightarrow> Inr (JArr (take (nat l) account_items))
      | _ \<Rightarrow> Inr (JArr account_items))"

subsection \<open>Items and records without their timestamps\<close>

fun strip_timestamps :: "json \<Rightarrow> json" where
  "strip_timestamps (JObj d) =
     JObj (filter (\<lambda>kv. fst kv \<noteq> ''createdAt'' \<and> fst kv \<noteq> ''lastModified'') d)"
| "strip_timestamps j = j"

definition erase_timestamps :: "project \<Rightarrow> project" where
  "erase_timestamps p = p\<lparr>created_at := None, updated_at := None\<rparr>"

text \<open>A model whose creation date is not a date and whose modification date is absent.\<close>

definition undated_model :: json where
  "undated_model =
     JObj [(''id'', JStr ''u/m''),
           (''private'', JBool False),
           (''createdAt'', JStr ''yesterday''),
           (''pipeline_tag'', JStr ''text-generation''),
           (''tags'', JArr [JStr ''demo''])]"

subsection \<open>Timestamps that survive the snapshot\<close>









subsection \<open>Sample worlds\<close>

text \<open>
  A world without any credential, and one with a GitHub token whose remote side fails
  on every request. Both start with no files. In the third world the data directory is
  there and cannot be searched, so that \<^verbatim>\<open>stat\<close> of the snapshot fails with \<^verbatim>\<open>EACCES\<close>.
\<close>

definition bare_world :: world where
  "bare_world =
     \<lparr>env = (\<lambda>k. None), remote = paged_http, disk = Map.empty,
      now_new = ''2024-05-01T10:00:00'', now_save = ''2024-05-01T10:00:05''\<rparr>"

definition offline_world :: world where
  "offline_world =
     \<lparr>env = [''GITHUB_API_KEY'' \<mapsto> ''k''], remote = (\<lambda>r. Inl RequestException),
      disk = Map.empty,
      now_new = ''2024-05-01T10:00:00'', now_save = ''2024-05-01T10:00:05''\<rparr>"

definition denied_world :: world where
  "denied_world = offline_world\<lparr>disk := [data_dir \<mapsto> Dir, output_file \<mapsto> Denied]\<rparr>"


section \<open>Merging\<close>

lemma datetime_eq_refl: "datetime_eq d d"
  by (simp add: datetime_eq_def split: option.splits)

lemma opt_datetime_eq_refl: "opt_datetime_eq d d"
  by (simp add: opt_datetime_eq_def datetime_eq_refl split: option.splits)

lemma project_eq_refl: "project_eq p p"
  by (simp add: project_eq_def opt_datetime_eq_refl)

lemma project_eq_key: "project_eq p q \<Longrightarrow> get_project_key p = get_project_key q"
  by (simp add: project_eq_def get_project_key_def)

text \<open>
  The key is the text \<^verbatim>\<open>source:full_name\<close>. Two records whose sources hold no colon,
  as the platform names \<^verbatim>\<open>GitHub\<close> and \<^verbatim>\<open>HuggingFace\<close>, have the same key exactly
  when they have the same source and the same full name; two records with the same
  source and full name have the same key in any case.
\<close>

lemma append_sep_eq:
  "c \<notin> set a \<Longrightarrow> c \<notin> set b \<Longrightarrow> a @ c # x = b @ c # y \<Longrightarrow> a = b \<and> x = y"
proof (induction a arbitrary: b)
  case Nil
  then show ?case by (cases b) auto
next
  case (Cons h a)
  then show ?case by (cases b) auto
qed

lemma get_project_key_eq_iff:
  assumes "CHR '':'' \<notin> set (source p)" and "CHR '':'' \<notin> set (source q)"
  shows "get_project_key p = get_project_key q
         \<longleftrightarrow> source p = source q \<and> full_name p = full_name q"
  using append_sep_eq[OF assms, of "full_name p" "full_name q"]
  by (auto simp: get_project_key_def)

lemma same_pair_same_key:
  "source p = source q \<Longrightarrow> full_name p = full_name q \<Longrightarrow> get_project_key p = get_project_key q"
  by (simp add: get_project_key_def)

lemma merge_list_upsert:
  "(case find (\<lambda>e. get_project_key e = get_project_key n) ps of
          Some existing \<Rightarrow>
            (case list_index ps existing of
               Inl e \<Rightarrow> Inl e
             | Inr i \<Rightarrow> Inr (\<lparr>metadata = m, projects = ps[i := n]\<rparr>, False))
        | None \<Rightarrow> Inr (\<lparr>metadata = m, projects = ps @ [n]\<rparr>, True))
       = Inr (\<lparr>metadata = m, projects = upsert ps n\<rparr>,
              get_project_key n \<notin> get_project_key ` set ps)"
proof (induction ps)
  case Nil
  show ?case by simp
next
  case (Cons p ps)
  show ?case
  proof (cases "get_project_key p = get_project_key n")
    case True
    then show ?thesis by (simp add: project_eq_refl)
  next
    case False
    show ?thesis
    proof (cases "find (\<lambda>e. get_project_key e = get_project_key n) ps")
      case None
      with False Cons show ?thesis by simp
    next
      case (Some e)
      then have "get_project_key e = get_project_key n"
        by (auto simp: find_Some_iff)
      with False have ne: "\<not> project_eq p e"
        using project_eq_key by metis
      from Some False ne Cons show ?thesis
        by (auto split: sum.splits)
    qed
  qed
qed

lemma merge_project_upsert:
  "merge_project idx n =
     Inr (idx\<lparr>projects := upsert (projects idx) n\<rparr>,
          get_project_key n \<notin> get_project_key ` set (projects idx))"
proof (cases idx)
  case (fields m ps)
  show ?thesis
    using merge_list_upsert[where n = n and ps = ps and m = m]
    by (auto simp: fields merge_project_def find_project_def add_project_def
        split: option.splits sum.splits)
qed



lemma keys_of_simps [simp]:
  "keys_of [] = []"
  "keys_of (p # ps) = get_project_key p # keys_of ps"
  "keys_of (ps @ qs) = keys_of ps @ keys_of qs"
  "length (keys_of ps) = length ps"
  by (simp_all add: keys_of_def)

lemma keys_of_nth: "i < length ps \<Longrightarrow> keys_of ps ! i = get_project_key (ps ! i)"
  by (simp add: keys_of_def)

lemma key_in_keys_of: "p \<in> set ps \<Longrightarrow> get_project_key p \<in> set (keys_of ps)"
  by (simp add: keys_of_def)

lemma keys_upsert:
  "keys_of (upsert ps n) =
     (if get_project_key n \<in> set (keys_of ps) then keys_of ps
      else keys_of ps @ [get_project_key n])"
  by (induction ps) auto

lemma distinct_upsert: "distinct (keys_of ps) \<Longrightarrow> distinct (keys_of (upsert ps n))"
  by (simp add: keys_upsert)

lemma by_key_upsert: "by_key (upsert ps n) = (by_key ps)(get_project_key n \<mapsto> n)"
  by (induction ps) (auto simp: by_key_def)

lemma by_key_nth:
  "distinct (keys_of ps) \<Longrightarrow> i < length ps \<Longrightarrow>
   by_key ps (get_project_key (ps ! i)) = Some (ps ! i)"
proof (induction ps arbitrary: i)
  case Nil
  then show ?case by simp
next
  case (Cons p ps)
  show ?case
  proof (cases i)
    case 0
    then show ?thesis by (simp add: by_key_def)
  next
    case (Suc j)
    with Cons.prems have j: "j < length ps" by simp
    then have "get_project_key (ps ! j) \<in> set (keys_of ps)"
      by (simp add: key_in_keys_of)
    with Cons.prems have ne: "get_project_key (ps ! j) \<noteq> get_project_key p"
      by auto
    from Cons.prems have "distinct (keys_of ps)" by simp
    from Cons.IH[OF this j] ne Suc show ?thesis
      by (simp add: by_key_def)
  qed
qed

lemma keyed_list_eqI:
  assumes "distinct (keys_of ps)" and "keys_of ps = keys_of qs" and "by_key ps = by_key qs"
  shows "ps = qs"
proof (rule nth_equalityI)
  from assms(2) have "length (keys_of ps) = length (keys_of qs)"
    by (simp only:)
  then show len: "length ps = length qs"
    by simp
  fix i assume i: "i < length ps"
  from assms(1) i have 1: "by_key ps (get_project_key (ps ! i)) = Some (ps ! i)"
    by (rule by_key_nth)
  from assms(1,2) i len have 2: "by_key qs (get_project_key (qs ! i)) = Some (qs ! i)"
    by (simp add: by_key_nth)
  from i have a: "keys_of ps ! i = get_project_key (ps ! i)"
    by (rule keys_of_nth)
  from i len have b: "keys_of qs ! i = get_project_key (qs ! i)"
    by (simp add: keys_of_nth)
  have "get_project_key (ps ! i) = keys_of qs ! i"
    by (simp only: a[symmetric] assms(2))
  with b have "get_project_key (ps ! i) = get_project_key (qs ! i)"
    by simp
  with 1 2 have "Some (ps ! i) = Some (qs ! i)"
    by (simp only: assms(3))
  then show "ps ! i = qs ! i"
    by simp
qed

lemma set_keys_foldl_upsert:
  "set (keys_of (foldl upsert ps S)) = set (keys_of ps) \<union> set (keys_of S)"
  by (induction S arbitrary: ps) (auto simp: keys_upsert)

lemma keys_foldl_upsert_present:
  "set (keys_of S) \<subseteq> set (keys_of ps) \<Longrightarrow> keys_of (foldl upsert ps S) = keys_of ps"
  by (induction S arbitrary: ps) (auto simp: keys_upsert)

lemma distinct_foldl_upsert:
  "distinct (keys_of ps) \<Longrightarrow> distinct (keys_of (foldl upsert ps S))"
  by (induction S arbitrary: ps) (auto simp: distinct_upsert)

lemma by_key_foldl_upsert:
  "by_key (foldl upsert ps S) = by_key ps ++ by_key (rev S)"
proof (induction S rule: rev_induct)
  case Nil
  show ?case by (simp add: by_key_def)
next
  case (snoc x xs)
  have "by_key (rev (xs @ [x])) = (by_key (rev xs))(get_project_key x \<mapsto> x)"
    by (simp add: by_key_def)
  then have "by_key ps ++ by_key (rev (xs @ [x])) =
     (by_key ps ++ by_key (rev xs))(get_project_key x \<mapsto> x)"
    by (simp only: map_add_upd)
  with snoc show ?case
    by (simp add: by_key_upsert)
qed

lemma foldl_upsert_idem:
  assumes "distinct (keys_of ps)"
  shows "foldl upsert (foldl upsert ps S) S = foldl upsert ps S"
proof (rule keyed_list_eqI)
  let ?R = "foldl upsert ps S"
  have sub: "set (keys_of S) \<subseteq> set (keys_of ?R)"
    by (simp add: set_keys_foldl_upsert)
  from assms have "distinct (keys_of ?R)"
    by (rule distinct_foldl_upsert)
  then show "distinct (keys_of (foldl upsert ?R S))"
    by (rule distinct_foldl_upsert)
  from sub show "keys_of (foldl upsert ?R S) = keys_of ?R"
    by (rule keys_foldl_upsert_present)
  have "by_key (rev S) ++ by_key (rev S) = by_key (rev S)"
    by (rule ext) (simp add: map_add_def split: option.splits)
  then show "by_key (foldl upsert ?R S) = by_key ?R"
    by (simp only: by_key_foldl_upsert map_add_assoc[symmetric])
qed

lemma merge_loop_foldl:
  "\<exists>st. merge_loop idx S a u = Inr (idx\<lparr>projects := foldl upsert (projects idx) S\<rparr>, st)"
proof (induction S arbitrary: idx a u)
  case Nil
  show ?case by simp
next
  case (Cons p S)
  let ?idx' = "idx\<lparr>projects := upsert (projects idx) p\<rparr>"
  from Cons[of ?idx'] show ?case
    by (simp add: merge_project_upsert)
qed

lemma merge_loop_present:
  "set (keys_of S) \<subseteq> set (keys_of (projects idx)) \<Longrightarrow>
   merge_loop idx S a u =
     Inr (idx\<lparr>projects := foldl upsert (projects idx) S\<rparr>,
          \<lparr>added = a, updated = u + int (length S)\<rparr>)"
proof (induction S arbitrary: idx a u)
  case Nil
  show ?case by simp
next
  case (Cons p S)
  let ?idx' = "idx\<lparr>projects := upsert (projects idx) p\<rparr>"
  from Cons.prems have "set (keys_of S) \<subseteq> set (keys_of (projects ?idx'))"
    by (auto simp: keys_upsert)
  from Cons.IH[OF this, of a "u + 1"] Cons.prems show ?case
    by (simp add: merge_project_upsert keys_of_def)
qed

text \<open>
  Claim C3. Merging a sequence of records \<open>S\<close> into a newly constructed, empty index
  always succeeds, and merging \<open>S\<close> a second time into the result leaves the index as
  the first merge made it, reporting 0 added and \<open>length S\<close> updated.
\<close>

theorem merge_idempotent:
  "\<exists>idx1 st1.
     merge_projects (ProjectIndex_new now) S = Inr (idx1, st1)
     \<and> merge_projects idx1 S = Inr (idx1, \<lparr>added = 0, updated = int (length S)\<rparr>)"
proof -
  let ?e = "ProjectIndex_new now"
  let ?idx1 = "?e\<lparr>projects := foldl upsert (projects ?e) S\<rparr>"
  from merge_loop_foldl[of ?e S 0 0] obtain st1
    where 1: "merge_projects ?e S = Inr (?idx1, st1)"
    by (auto simp: merge_projects_def)
  have "set (keys_of S) \<subseteq> set (keys_of (projects ?idx1))"
    by (simp add: set_keys_foldl_upsert)
  from merge_loop_present[OF this, of 0 0]
  have "merge_projects ?idx1 S =
     Inr (?idx1\<lparr>projects := foldl upsert (projects ?idx1) S\<rparr>,
          \<lparr>added = 0, updated = int (length S)\<rparr>)"
    by (simp add: merge_projects_def)
  moreover have "foldl upsert (projects ?idx1) S = projects ?idx1"
    by (simp add: foldl_upsert_idem ProjectIndex_new_def)
  ultimately have "merge_projects ?idx1 S =
     Inr (?idx1, \<lparr>added = 0, updated = int (length S)\<rparr>)"
    by simp
  with 1 show ?thesis by blast
qed


lemma upsert_first:
  assumes "\<exists>p\<in>set ps. get_project_key p = get_project_key B"
  shows "\<exists>i<length ps. get_project_key (ps ! i) = get_project_key B
           \<and> (\<forall>j<i. get_project_key (ps ! j) \<noteq> get_project_key B)
           \<and> upsert ps B = ps[i := B]"
  using assms
proof (induction ps)
  case Nil
  then show ?case by simp
next
  case (Cons p ps)
  show ?case
  proof (cases "get_project_key p = get_project_key B")
    case True
    then have "0 < length (p # ps) \<and> get_project_key ((p # ps) ! 0) = get_project_key B
       \<and> (\<forall>j<0. get_project_key ((p # ps) ! j) \<noteq> get_project_key B)
       \<and> upsert (p # ps) B = (p # ps)[0 := B]"
      by simp
    then show ?thesis by blast
  next
    case False
    with Cons.prems have "\<exists>p\<in>set ps. get_project_key p = get_project_key B"
      by simp
    from Cons.IH[OF this] obtain i where
      i: "i < length ps" "get_project_key (ps ! i) = get_project_key B"
         "\<forall>j<i. get_project_key (ps ! j) \<noteq> get_project_key B" "upsert ps B = ps[i := B]"
      by blast
    have "\<forall>j<Suc i. get_project_key ((p # ps) ! j) \<noteq> get_project_key B"
    proof (intro allI impI)
      fix j assume "j < Suc i"
      with False i(3) show "get_project_key ((p # ps) ! j) \<noteq> get_project_key B"
        by (cases j) simp_all
    qed
    with False i have
      "Suc i < length (p # ps) \<and> get_project_key ((p # ps) ! Suc i) = get_project_key B
       \<and> (\<forall>j<Suc i. get_project_key ((p # ps) ! j) \<noteq> get_project_key B)
       \<and> upsert (p # ps) B = (p # ps)[Suc i := B]"
      by simp
    then show ?thesis by blast
  qed
qed

lemma upsert_absent:
  "get_project_key B \<notin> set (keys_of ps) \<Longrightarrow> upsert ps B = ps @ [B]"
  by (induction ps) auto

lemma filter_update_first:
  "i < length ps \<Longrightarrow> \<forall>j<i. \<not> P (ps ! j) \<Longrightarrow> P (ps ! i) \<Longrightarrow> P B \<Longrightarrow>
   filter P ps = ps ! i # filter P (drop (Suc i) ps)
   \<and> filter P (ps[i := B]) = B # filter P (drop (Suc i) ps)"
proof (induction ps arbitrary: i)
  case Nil
  then show ?case by simp
next
  case (Cons p ps)
  show ?case
  proof (cases i)
    case 0
    with Cons.prems show ?thesis by simp
  next
    case (Suc k)
    with Cons.prems(2) have "\<not> P ((p # ps) ! 0)"
      by blast
    then have p: "\<not> P p" by simp
    have "\<forall>j<k. \<not> P (ps ! j)"
    proof (intro allI impI)
      fix j assume "j < k"
      then have "Suc j < i" using Suc by simp
      with Cons.prems(2) have "\<not> P ((p # ps) ! Suc j)" by blast
      then show "\<not> P (ps ! j)" by simp
    qed
    moreover from Cons.prems(1,3) Suc have "k < length ps" "P (ps ! k)"
      by simp_all
    ultimately have "filter P ps = ps ! k # filter P (drop (Suc k) ps)
       \<and> filter P (ps[k := B]) = B # filter P (drop (Suc k) ps)"
      using Cons.prems(4) by (intro Cons.IH)
    with p Suc show ?thesis by simp
  qed
qed

text \<open>
  Claim C1, as the code has it. The record that \<open>merge_project\<close> replaces is the first
  one whose key, the text \<^verbatim>\<open>source:full_name\<close>, is that of the new record \<open>B\<close>. Let no
  \<open>source\<close>, of the records of the index and of \<open>B\<close>, hold a colon (the fetchers write
  \<^verbatim>\<open>GitHub\<close> and \<^verbatim>\<open>HuggingFace\<close>); then the keys agree exactly when the pairs of
  \<open>source\<close> and \<open>full_name\<close> do. If a record of the index has the pair of \<open>B\<close>, then
  \<open>merge_project\<close> succeeds, puts \<open>B\<close> at the position of the first such record, leaves
  every other position as it was and returns \<^verbatim>\<open>False\<close> (updated); and if a record \<open>A\<close>
  is the only one of the index with that pair, it is \<open>A\<close> that is replaced, and
  afterwards \<open>B\<close> is the only record with that pair. If no record of the index has the
  pair of \<open>B\<close>, then \<open>merge_project\<close> appends \<open>B\<close> and returns \<^verbatim>\<open>True\<close> (added).
\<close>

theorem merge_project_by_pair:
  assumes "\<forall>p\<in>set (B # projects idx). CHR '':'' \<notin> set (source p)"
  shows "((\<exists>A\<in>set (projects idx). (source A, full_name A) = (source B, full_name B)) \<longrightarrow>
            (\<exists>i<length (projects idx).
                (source (projects idx ! i), full_name (projects idx ! i))
                  = (source B, full_name B)
              \<and> (\<forall>j<i. (source (projects idx ! j), full_name (projects idx ! j))
                          \<noteq> (source B, full_name B))
              \<and> merge_project idx B = Inr (idx\<lparr>projects := (projects idx)[i := B]\<rparr>, False)
              \<and> (\<forall>A. filter (\<lambda>p. (source p, full_name p) = (source B, full_name B))
                         (projects idx) = [A] \<longrightarrow>
                       projects idx ! i = A
                     \<and> filter (\<lambda>p. (source p, full_name p) = (source B, full_name B))
                         ((projects idx)[i := B]) = [B])))
       \<and> ((\<forall>A\<in>set (projects idx). (source A, full_name A) \<noteq> (source B, full_name B)) \<longrightarrow>
            merge_project idx B = Inr (idx\<lparr>projects := projects idx @ [B]\<rparr>, True))"
proof -
  let ?ps = "projects idx"
  let ?key = "\<lambda>p. get_project_key p = get_project_key B"
  let ?pair = "\<lambda>p. (source p, full_name p) = (source B, full_name B)"
  have kp: "?key p \<longleftrightarrow> ?pair p" if "p \<in> insert B (set ?ps)" for p
    using assms that get_project_key_eq_iff[of p B] by auto
  have filt: "filter ?pair qs = filter ?key qs" if "set qs \<subseteq> insert B (set ?ps)" for qs
  proof (rule filter_cong[OF refl])
    fix p assume "p \<in> set qs"
    with that have "p \<in> insert B (set ?ps)" by blast
    then show "?pair p = ?key p" by (simp only: kp)
  qed
  show ?thesis
  proof (intro conjI impI)
    assume "\<exists>A\<in>set ?ps. ?pair A"
    then obtain A where A: "A \<in> set ?ps" "?pair A" by blast
    then have "?key A" by (simp add: kp)
    with A(1) have ex: "\<exists>p\<in>set ?ps. ?key p" by blast
    from upsert_first[OF ex] obtain i where
      i: "i < length ?ps" "?key (?ps ! i)" "\<forall>j<i. \<not> ?key (?ps ! j)" "upsert ?ps B = ?ps[i := B]"
      by blast
    from i(1) have mem: "?ps ! i \<in> set ?ps" by simp
    with i(2) have 1: "?pair (?ps ! i)" by (simp add: kp)
    have 2: "\<forall>j<i. (source (?ps ! j), full_name (?ps ! j)) \<noteq> (source B, full_name B)"
    proof (intro allI impI)
      fix j assume j: "j < i"
      with i(1) have "?ps ! j \<in> set ?ps" by simp
      moreover from i(3) j have "\<not> ?key (?ps ! j)" by blast
      ultimately show "(source (?ps ! j), full_name (?ps ! j)) \<noteq> (source B, full_name B)"
        by (simp add: kp)
    qed
    from i(2)[symmetric] mem have "get_project_key B \<in> get_project_key ` set ?ps"
      by (rule image_eqI)
    with i(4) have 3: "merge_project idx B = Inr (idx\<lparr>projects := ?ps[i := B]\<rparr>, False)"
      by (simp add: merge_project_upsert)
    have 4: "\<forall>A. filter ?pair ?ps = [A] \<longrightarrow>
               ?ps ! i = A \<and> filter ?pair (?ps[i := B]) = [B]"
    proof (intro allI impI)
      fix A assume u: "filter ?pair ?ps = [A]"
      from filter_update_first[of i ?ps ?key B, OF i(1) i(3) i(2) refl] have
        f1: "filter ?key ?ps = ?ps ! i # filter ?key (drop (Suc i) ?ps)"
        and f2: "filter ?key (?ps[i := B]) = B # filter ?key (drop (Suc i) ?ps)"
        by blast+
      have "filter ?pair ?ps = filter ?key ?ps"
        by (rule filt) blast
      with u f1 have a: "?ps ! i = A" and r: "filter ?key (drop (Suc i) ?ps) = []"
        by simp_all
      have "filter ?pair (?ps[i := B]) = filter ?key (?ps[i := B])"
        by (rule filt) (rule set_update_subset_insert)
      with f2 r have "filter ?pair (?ps[i := B]) = [B]"
        by simp
      with a show "?ps ! i = A \<and> filter ?pair (?ps[i := B]) = [B]" ..
    qed
    from i(1) 1 2 3 4 show "\<exists>i<length ?ps.
          (source (?ps ! i), full_name (?ps ! i)) = (source B, full_name B)
        \<and> (\<forall>j<i. (source (?ps ! j), full_name (?ps ! j)) \<noteq> (source B, full_name B))
        \<and> merge_project idx B = Inr (idx\<lparr>projects := ?ps[i := B]\<rparr>, False)
        \<and> (\<forall>A. filter ?pair ?ps = [A] \<longrightarrow>
                 ?ps ! i = A \<and> filter ?pair (?ps[i := B]) = [B])"
      by blast
  next
    assume none: "\<forall>A\<in>set ?ps. (source A, full_name A) \<noteq> (source B, full_name B)"
    have nk: "\<forall>A\<in>set ?ps. \<not> ?key A"
    proof
      fix A assume "A \<in> set ?ps"
      with none show "\<not> ?key A" by (simp add: kp)
    qed
    then have "get_project_key B \<notin> set (keys_of ?ps)"
      by (auto simp: keys_of_def)
    then have "upsert ?ps B = ?ps @ [B]"
      by (rule upsert_absent)
    moreover from nk have "get_project_key B \<notin> get_project_key ` set ?ps"
      by force
    ultimately show "merge_project idx B = Inr (idx\<lparr>projects := ?ps @ [B]\<rparr>, True)"
      by (simp add: merge_project_upsert)
  qed
qed

theorem merge_project_by_pair_witness:
  "merge_project \<lparr>metadata = [], projects = [repo_a, repo_b]\<rparr> repo_b2
     = Inr (\<lparr>metadata = [], projects = [repo_a, repo_b2]\<rparr>, False)
   \<and> filter (\<lambda>p. (source p, full_name p) = (source repo_b2, full_name repo_b2))
        [repo_a, repo_b2] = [repo_b2]
   \<and> merge_project \<lparr>metadata = [], projects = [repo_a, repo_b]\<rparr> space_c
     = Inr (\<lparr>metadata = [], projects = [repo_a, repo_b, space_c]\<rparr>, True)"
proof -
  let ?idx = "\<lparr>metadata = [], projects = [repo_a, repo_b]\<rparr>"
  have c: "\<forall>p\<in>set (repo_b2 # projects ?idx). CHR '':'' \<notin> set (source p)"
    "\<forall>p\<in>set (space_c # projects ?idx). CHR '':'' \<notin> set (source p)"
    by (simp_all add: repo_a_def repo_b_def repo_b2_def space_c_def)
  have u: "filter (\<lambda>p. (source p, full_name p) = (source repo_b2, full_name repo_b2))
             (projects ?idx) = [repo_b]"
    by (simp add: repo_a_def repo_b_def repo_b2_def)
  have e: "\<exists>A\<in>set (projects ?idx).
             (source A, full_name A) = (source repo_b2, full_name repo_b2)"
    by (simp add: repo_b_def repo_b2_def)
  have n: "\<forall>A\<in>set (projects ?idx).
             (source A, full_name A) \<noteq> (source space_c, full_name space_c)"
    by (simp add: repo_a_def repo_b_def space_c_def)
  have ne: "repo_a \<noteq> repo_b"
    by (simp add: repo_a_def repo_b_def)
  from merge_project_by_pair[OF c(1)] e u obtain i where
    i: "i < length (projects ?idx)" "projects ?idx ! i = repo_b"
       "merge_project ?idx repo_b2 = Inr (?idx\<lparr>projects := (projects ?idx)[i := repo_b2]\<rparr>, False)"
       "filter (\<lambda>p. (source p, full_name p) = (source repo_b2, full_name repo_b2))
          ((projects ?idx)[i := repo_b2]) = [repo_b2]"
    by blast
  from i(1,2) ne have "i = 1"
    by (cases i) auto
  with i(3,4) have
    "merge_project ?idx repo_b2 = Inr (\<lparr>metadata = [], projects = [repo_a, repo_b2]\<rparr>, False)"
    "filter (\<lambda>p. (source p, full_name p) = (source repo_b2, full_name repo_b2))
       [repo_a, repo_b2] = [repo_b2]"
    by simp_all
  moreover from merge_project_by_pair[OF c(2)] n
  have "merge_project ?idx space_c = Inr (?idx\<lparr>projects := projects ?idx @ [space_c]\<rparr>, True)"
    by blast
  ultimately show ?thesis by simp
qed

text \<open>
  Claim C1, as it stands, fails on two kinds of index. The key that the code compares
  is the text \<^verbatim>\<open>source:full_name\<close>, not the pair: the records \<open>colon_a\<close> and \<open>colon_b\<close>
  have different pairs and the same text \<^verbatim>\<open>a:b:c\<close>, so \<open>colon_b\<close> takes the place of
  \<open>colon_a\<close> and is reported as updated, where the claim has it appended and reported as
  added. And in an index that holds a pair twice, as a loaded snapshot can, only the
  first record with the pair is replaced: afterwards two records have the pair.
\<close>

theorem merge_project_by_pair_counterexample:
  "(source colon_a, full_name colon_a) \<noteq> (source colon_b, full_name colon_b)
   \<and> merge_project \<lparr>metadata = [], projects = [colon_a]\<rparr> colon_b
       = Inr (\<lparr>metadata = [], projects = [colon_b]\<rparr>, False)
   \<and> merge_project \<lparr>metadata = [], projects = [repo_b, repo_a, repo_b]\<rparr> repo_b2
       = Inr (\<lparr>metadata = [], projects = [repo_b2, repo_a, repo_b]\<rparr>, False)
   \<and> filter (\<lambda>p. (source p, full_name p) = (source repo_b2, full_name repo_b2))
        [repo_b2, repo_a, repo_b] = [repo_b2, repo_b]"
  by (simp add: merge_project_upsert get_project_key_def colon_a_def colon_b_def
      repo_a_def repo_b_def repo_b2_def)

lemma reachable_distinct_keys: "reachable idx \<Longrightarrow> distinct (keys_of (projects idx))"
proof (induction rule: reachable.induct)
  case (reachable_empty now)
  show ?case by (simp add: ProjectIndex_new_def)
next
  case (reachable_merge_one idx p idx' b)
  then show ?case
    by (auto simp: merge_project_upsert distinct_upsert)
next
  case (reachable_merge_many idx ps idx' st)
  from merge_loop_foldl[of idx ps 0 0] reachable_merge_many.hyps(2)
  have "projects idx' = foldl upsert (projects idx) ps"
    by (auto simp: merge_projects_def)
  with reachable_merge_many.IH show ?case
    by (simp add: distinct_foldl_upsert)
qed

text \<open>
  Claim C2. In every index reachable from the empty index by \<open>merge_project\<close> and
  \<open>merge_projects\<close>, no two records have the same pair of \<open>source\<close> and \<open>full_name\<close>.
\<close>

theorem key_uniqueness:
  "reachable idx \<Longrightarrow> distinct (map (\<lambda>p. (source p, full_name p)) (projects idx))"
proof -
  assume "reachable idx"
  then have "distinct (map get_project_key (projects idx))"
    using reachable_distinct_keys by (simp add: keys_of_def)
  then show ?thesis
    by (auto simp: distinct_map inj_on_def get_project_key_def)
qed

theorem key_uniqueness_witness:
  "reachable \<lparr>metadata = metadata (ProjectIndex_new ''t''), projects = [repo_a, repo_b2, space_c]\<rparr>
   \<and> distinct (map (\<lambda>p. (source p, full_name p)) [repo_a, repo_b2, space_c])"
proof -
  let ?e = "ProjectIndex_new ''t''"
  have 1: "merge_projects ?e [repo_a, repo_b, space_c] =
     Inr (?e\<lparr>projects := [repo_a, repo_b, space_c]\<rparr>, \<lparr>added = 3, updated = 0\<rparr>)"
    by (simp add: merge_projects_def merge_project_upsert get_project_key_def
        repo_a_def repo_b_def space_c_def ProjectIndex_new_def)
  have 2: "merge_project (?e\<lparr>projects := [repo_a, repo_b, space_c]\<rparr>) repo_b2 =
     Inr (?e\<lparr>projects := [repo_a, repo_b2, space_c]\<rparr>, False)"
    by (simp add: merge_project_upsert get_project_key_def
        repo_a_def repo_b_def repo_b2_def space_c_def ProjectIndex_new_def)
  have "reachable (?e\<lparr>projects := [repo_a, repo_b2, space_c]\<rparr>)"
    by (rule reachable_merge_one[OF reachable_merge_many[OF reachable_empty 1] 2])
  then have r: "reachable \<lparr>metadata = metadata ?e, projects = [repo_a, repo_b2, space_c]\<rparr>"
    by (simp add: ProjectIndex_new_def)
  from key_uniqueness[OF r] r show ?thesis by simp
qed

theorem merge_idempotent_witness:
  "merge_projects (ProjectIndex_new ''t'') [repo_a, repo_b, repo_b2]
     = Inr (\<lparr>metadata = metadata (ProjectIndex_new ''t''), projects = [repo_a, repo_b2]\<rparr>,
            \<lparr>added = 2, updated = 1\<rparr>)
   \<and> merge_projects \<lparr>metadata = metadata (ProjectIndex_new ''t''), projects = [repo_a, repo_b2]\<rparr>
        [repo_a, repo_b, repo_b2]
     = Inr (\<lparr>metadata = metadata (ProjectIndex_new ''t''), projects = [repo_a, repo_b2]\<rparr>,
            \<lparr>added = 0, updated = 3\<rparr>)"
proof -
  let ?e = "ProjectIndex_new ''t''"
  let ?S = "[repo_a, repo_b, repo_b2]"
  have 1: "merge_projects ?e ?S =
     Inr (\<lparr>metadata = metadata ?e, projects = [repo_a, repo_b2]\<rparr>, \<lparr>added = 2, updated = 1\<rparr>)"
    by (simp add: merge_projects_def merge_project_upsert get_project_key_def
        repo_a_def repo_b_def repo_b2_def ProjectIndex_new_def)
  from merge_idempotent[of "''t''" ?S] obtain idx1 st1 where
    "merge_projects ?e ?S = Inr (idx1, st1)"
    "merge_projects idx1 ?S = Inr (idx1, \<lparr>added = 0, updated = int (length ?S)\<rparr>)"
    by blast
  with 1 show ?thesis by simp
qed



section \<open>Sorting by date\<close>

text \<open>
  A sort raises exactly when its keys are mixed. When they are not, its result is the
  stable sort of the library, by instant and ascending, or by negated instant for
  \<^verbatim>\<open>reverse=True\<close>.
\<close>

lemma datetime_lt_uniform:
  "(utcoffset a = None) = (utcoffset b = None) \<Longrightarrow> datetime_lt a b = Inr (instant a < instant b)"
  by (auto simp: datetime_lt_def instant_def split: option.splits)

lemma datetime_lt_clash:
  "(utcoffset a = None) \<noteq> (utcoffset b = None) \<Longrightarrow> datetime_lt a b = Inl TypeError"
  by (auto simp: datetime_lt_def split: option.splits)

lemma rank_le:
  "rank True x \<le> rank True y \<longleftrightarrow> \<not> instant (created_key x) < instant (created_key y)"
  "rank False x \<le> rank False y \<longleftrightarrow> \<not> instant (created_key y) < instant (created_key x)"
  by (auto simp: rank_def)

lemma insert_by_uniform:
  "\<forall>y\<in>set ys. naive_key y = naive_key x \<Longrightarrow>
   insert_by r x ys = Inr (insort_key (rank r) x ys)"
proof (induction ys)
  case Nil
  show ?case by simp
next
  case (Cons y ys)
  then have u: "(utcoffset (created_key x) = None) = (utcoffset (created_key y) = None)"
    by (simp add: naive_key_def)
  from Cons have IH: "insert_by r x ys = Inr (insort_key (rank r) x ys)"
    by simp
  show ?case
  proof (cases r)
    case True
    with IH datetime_lt_uniform[OF u] show ?thesis
      by (simp add: rank_le)
  next
    case False
    with IH datetime_lt_uniform[OF u[symmetric]] show ?thesis
      by (simp add: rank_le)
  qed
qed

lemma insert_by_clash:
  "naive_key y \<noteq> naive_key x \<Longrightarrow> insert_by r x (y # ys) = Inl TypeError"
proof -
  assume "naive_key y \<noteq> naive_key x"
  then have "(utcoffset (created_key x) = None) \<noteq> (utcoffset (created_key y) = None)"
    by (auto simp: naive_key_def)
  from datetime_lt_clash[OF this] datetime_lt_clash[OF this[symmetric]]
  show ?thesis by simp
qed

lemma list_sort_uniform:
  "\<not> mixed_keys xs \<Longrightarrow> list_sort r xs = Inr (sort_key (rank r) xs)"
proof (induction xs)
  case Nil
  show ?case by simp
next
  case (Cons x xs)
  from Cons.prems have nm: "\<not> mixed_keys xs"
    by (auto simp: mixed_keys_def)
  from Cons.prems have "\<forall>y\<in>set xs. naive_key y = naive_key x"
    by (auto simp: mixed_keys_def)
  then have "\<forall>y\<in>set (sort_key (rank r) xs). naive_key y = naive_key x"
    by simp
  from insert_by_uniform[OF this] Cons.IH[OF nm] show ?case
    by simp
qed

lemma list_sort_mixed:
  "mixed_keys xs \<Longrightarrow> list_sort r xs = Inl TypeError"
proof (induction xs)
  case Nil
  then show ?case by (simp add: mixed_keys_def)
next
  case (Cons x xs)
  show ?case
  proof (cases "mixed_keys xs")
    case True
    with Cons.IH show ?thesis by simp
  next
    case False
    then have s: "list_sort r xs = Inr (sort_key (rank r) xs)"
      by (rule list_sort_uniform)
    from False Cons.prems obtain y where y: "y \<in> set xs" "naive_key y \<noteq> naive_key x"
      by (auto simp: mixed_keys_def)
    with False have all: "\<forall>z\<in>set xs. naive_key z \<noteq> naive_key x"
      by (auto simp: mixed_keys_def)
    from y(1) have "sort_key (rank r) xs \<noteq> []"
      by (metis empty_iff empty_set set_sort)
    then obtain z zs where z: "sort_key (rank r) xs = z # zs"
      by (cases "sort_key (rank r) xs") auto
    then have "z \<in> set xs"
      by (metis list.set_intros(1) set_sort)
    with all have "naive_key z \<noteq> naive_key x"
      by simp
    from insert_by_clash[OF this] s z show ?thesis
      by simp
  qed
qed

lemma sort_by_date_result:
  "sort_by_date idx r =
     (if mixed_keys (projects idx) then Inl TypeError
      else Inr (idx\<lparr>projects := sort_key (rank r) (projects idx)\<rparr>))"
  by (simp add: sort_by_date_def list_sort_mixed list_sort_uniform)

text \<open>
  With naive timestamps \<open>T1 < T2\<close>, both later than \<^verbatim>\<open>datetime.min\<close>, the order of the
  records \<open>[None, T1, T2]\<close> becomes \<open>[T2, T1, None]\<close>.
\<close>

lemma sort_by_date_naive:
  assumes "created_at p0 = None" and "created_at p1 = Some d1" and "created_at p2 = Some d2"
    and "utcoffset d1 = None" and "utcoffset d2 = None"
    and "0 < wall d1" and "wall d1 < wall d2"
  shows "sort_by_date \<lparr>metadata = m, projects = [p0, p1, p2]\<rparr> True
         = Inr \<lparr>metadata = m, projects = [p2, p1, p0]\<rparr>"
proof -
  have "\<not> mixed_keys [p0, p1, p2]"
    using assms by (simp add: mixed_keys_def naive_key_def created_key_def datetime_min_def)
  moreover have "rank True p0 = 0" "rank True p1 = - int (wall d1)" "rank True p2 = - int (wall d2)"
    using assms by (simp_all add: rank_def instant_def created_key_def datetime_min_def)
  ultimately show ?thesis
    using assms(6,7) by (simp add: sort_by_date_result)
qed

text \<open>
  Claim C6, at the input on which the code fails: an index whose three records have
  the creation dates \<^verbatim>\<open>None\<close>, 2020-01-01T00:00:00+00:00 and 2021-01-01T00:00:00+00:00,
  as the fetchers produce them (aware, from a \<^verbatim>\<open>Z\<close> suffix). \<open>sort_by_date\<close> with
  \<^verbatim>\<open>reverse=True\<close> raises \<^verbatim>\<open>TypeError\<close> on it: the key of the undated record is the
  naive \<^verbatim>\<open>datetime.min\<close>, which cannot be compared with an aware timestamp.
\<close>

theorem sort_by_date_raises:
  "sort_by_date \<lparr>metadata = [], projects = [undated, dated_2020, dated_2021]\<rparr> True
   = Inl TypeError"
  by (simp add: sort_by_date_def created_key_def datetime_lt_def datetime_min_def
      undated_def dated_2020_def dated_2021_def utc_2020_def utc_2021_def
      space_c_def repo_a_def repo_b_def)


section \<open>Paging through the repositories\<close>

lemma requests_of_simps [simp]:
  "requests_of [] = []"
  "requests_of (tr @ tr') = requests_of tr @ requests_of tr'"
  "requests_of (Request r # tr) = r # requests_of tr"
  "requests_of (Log l m a # tr) = requests_of tr"
  by (simp_all add: requests_of_def)









lemma resolve_user_given:
  "u \<noteq> [] \<Longrightarrow> resolve_user whoami (Some u) tr = (tr, Inr (JStr u))"
  by (simp add: resolve_user_def)



lemma collect_replicate:
  "f x = Inr (Some p) \<Longrightarrow> collect f (replicate n x) = Inr (replicate n p)"
  by (induction n) simp_all







section \<open>The category fetches of Hugging Face\<close>

text \<open>
  A category fetch for a given author sends exactly one request, whatever the remote
  side answers, and its records are those of the items of that one answer.
\<close>

lemma hf_fetch_category_one_request:
  "u \<noteq> [] \<Longrightarrow>
   requests_of (fst (hf_fetch_category f category http ix (Some u) tr))
     = requests_of tr @ [hf_request ix category (JStr u)]"
  by (simp add: hf_fetch_category_def resolve_user_given Let_def split: sum.splits)

lemma hf_fetch_category_result:
  "u \<noteq> [] \<Longrightarrow>
   snd (hf_fetch_category f category http ix (Some u) tr)
     = ebind (http (hf_request ix category (JStr u)))
         (\<lambda>items. ebind (py_iter items) (collect f))"
  by (simp add: hf_fetch_category_def resolve_user_given Let_def split: sum.splits)

lemma model_to_project_sample:
  "model_to_project sample_lib sample_model = Inr (Some sample_model_record)"
  by (simp add: model_to_project_def hf_item_to_project_def sample_model_def sample_lib_def
      sample_model_record_def ebind_def parse_datetime_def py_fromisoformat_def replace_Z_def
      Project_init_def py_format_def last_segment_def)

text \<open>
  Claim C5, at the input on which the code fails: an account with 501 public models.
  \<open>fetch_public_models\<close> sends its single request with \<^verbatim>\<open>limit\<close> 500 and returns the
  500 records of the answer; the 501st model is not among them.
\<close>

theorem fetch_public_models_incomplete:
  "requests_of (fst (fetch_public_models sample_lib (listing_http (replicate 501 sample_model))
                       sample_hf (Some ''u'') []))
     = [hf_request sample_hf ''models'' (JStr ''u'')]
   \<and> snd (fetch_public_models sample_lib (listing_http (replicate 501 sample_model))
             sample_hf (Some ''u'') [])
     = Inr (replicate 500 sample_model_record)"
proof -
  have u: "''u'' \<noteq> []" by simp
  have "listing_http (replicate 501 sample_model) (hf_request sample_hf ''models'' (JStr ''u''))
          = Inr (JArr (replicate 500 sample_model))"
    by (simp add: listing_http_def hf_request_def)
  moreover have "collect (model_to_project sample_lib) (replicate 500 sample_model)
          = Inr (replicate 500 sample_model_record)"
    using model_to_project_sample by (rule collect_replicate)
  ultimately show ?thesis
    by (simp add: fetch_public_models_def hf_fetch_category_one_request[OF u]
        hf_fetch_category_result[OF u] ebind_def)
qed


section \<open>Timestamps of Hugging Face items\<close>

lemma ebind_simps [simp]:
  "ebind (Inr x) f = f x"
  "ebind (Inl e) f = Inl e"
  by (simp_all add: ebind_def)

lemma map_ebind:
  "map_sum id g (ebind m f) = ebind m (\<lambda>x. map_sum id g (f x))"
  by (cases m) simp_all

lemma parse_datetime_total: "\<exists>r. parse_datetime L v = Inr r"
proof (cases "truthy v")
  case False
  then show ?thesis by (simp add: parse_datetime_def)
next
  case True
  show ?thesis
  proof (cases "ebind (py_replace_Z v) (py_fromisoformat L)")
    case (Inr d)
    with True show ?thesis by (simp add: parse_datetime_def)
  next
    case (Inl e)
    have "e = ValueError \<or> e = AttributeError"
    proof (cases v)
      case (JStr s)
      with Inl show ?thesis
        by (simp add: py_fromisoformat_def split: option.splits)
    qed (use Inl in simp_all)
    with True Inl show ?thesis by (simp add: parse_datetime_def)
  qed
qed

lemma parse_datetime_bad:
  assumes "\<forall>s. v = JStr s \<longrightarrow> fromisoformat L (replace_Z s) = None"
  shows "parse_datetime L v = Inr None"
proof (cases v)
  case (JStr s)
  with assms have "fromisoformat L (replace_Z s) = None" by simp
  with JStr show ?thesis
    by (simp add: parse_datetime_def py_fromisoformat_def)
qed (simp_all add: parse_datetime_def)

lemma ebind_parse:
  "ebind (parse_datetime L v) f = f (projr (parse_datetime L v))"
  using parse_datetime_total[of L v] by auto

lemma map_of_strip:
  "k \<noteq> ''createdAt'' \<Longrightarrow> k \<noteq> ''lastModified'' \<Longrightarrow>
   map_of (filter (\<lambda>kv. fst kv \<noteq> ''createdAt'' \<and> fst kv \<noteq> ''lastModified'') d) k = map_of d k"
  by (induction d) auto

lemma map_of_strip_created:
  "map_of (filter (\<lambda>kv. fst kv \<noteq> ''createdAt'' \<and> fst kv \<noteq> ''lastModified'') d) ''createdAt'' = None"
  by (induction d) auto

lemma map_of_strip_modified:
  "map_of (filter (\<lambda>kv. fst kv \<noteq> ''createdAt'' \<and> fst kv \<noteq> ''lastModified'') d) ''lastModified'' = None"
  by (induction d) auto

lemma Project_init_erase:
  "ebind (Project_init a b c d e f ca ua g h) (\<lambda>p. Inr (Some (erase_timestamps p)))
     = ebind (Project_init a b c d e f None None g h) (\<lambda>p. Inr (Some p))"
  by (cases "validate_str a"; cases "validate_str b"; cases "validate_str c";
      cases "validate_str d"; cases "validate_opt_str e"; cases "validate_str f";
      cases "validate_opt_str g"; cases "validate_str_list h")
    (simp_all add: Project_init_def erase_timestamps_def)

lemma hf_item_strip:
  assumes "lf \<noteq> Some ''createdAt''" "lf \<noteq> Some ''lastModified''"
  shows "map_sum id (map_option erase_timestamps) (hf_item_to_project L ty pre lf item)
     = hf_item_to_project L ty pre lf (strip_timestamps item)"
proof (cases item)
  case (JObj d)
  let ?d' = "filter (\<lambda>kv. fst kv \<noteq> ''createdAt'' \<and> fst kv \<noteq> ''lastModified'') d"
  have lg: "(case lf of None \<Rightarrow> Inr JNull | Some k \<Rightarrow> py_get (JObj ?d') k JNull)
          = (case lf of None \<Rightarrow> Inr JNull | Some k \<Rightarrow> py_get (JObj d) k JNull)"
    using assms by (cases lf) (simp_all add: map_of_strip)
  have n: "parse_datetime L JNull = Inr None"
    by (simp add: parse_datetime_def)
  show ?thesis
    unfolding JObj hf_item_to_project_def strip_timestamps.simps
    by (simp add: map_ebind if_distrib[of "map_sum id (map_option erase_timestamps)"]
        map_of_strip map_of_strip_created map_of_strip_modified lg n ebind_parse
        Project_init_erase cong: if_cong)
qed (simp_all add: hf_item_to_project_def)


lemma ebind_InrE:
  assumes "ebind m f = Inr y"
  obtains x where "m = Inr x" and "f x = Inr y"
  using assms by (cases m) simp_all

lemma Project_init_dates:
  "Project_init a b c d e f ca ua g h = Inr p \<Longrightarrow> created_at p = ca \<and> updated_at p = ua"
  by (cases "validate_str a"; cases "validate_str b"; cases "validate_str c";
      cases "validate_str d"; cases "validate_opt_str e"; cases "validate_str f";
      cases "validate_opt_str g"; cases "validate_str_list h")
    (auto simp: Project_init_def)

lemma hf_item_dates:
  assumes "hf_item_to_project L ty pre lf item = Inr (Some p)"
  shows "ebind (py_get item ''createdAt'' JNull) (parse_datetime L) = Inr (created_at p)
       \<and> ebind (py_get item ''lastModified'' JNull) (parse_datetime L) = Inr (updated_at p)"
proof -
  from assms obtain priv where
    1: "py_get item ''private'' (JBool False) = Inr priv"
    by (auto simp: hf_item_to_project_def elim: ebind_InrE)
  show ?thesis
  proof (cases "truthy priv")
    case True
    with assms 1 show ?thesis
      by (simp add: hf_item_to_project_def)
  next
    case False
    from assms 1 False obtain item_id has_slash nm card d1 ds c ca u ua lg tp q where
      c: "py_get item ''createdAt'' JNull = Inr c" "parse_datetime L c = Inr ca"
      and u: "py_get item ''lastModified'' JNull = Inr u" "parse_datetime L u = Inr ua"
      and q: "Project_init (JStr ''HuggingFace'') (JStr ty) nm item_id ds
                (JStr (pre @ py_format L item_id)) ca ua lg tp = Inr q"
      and p: "Inr (Some q) = (Inr (Some p) :: error + project option)"
      unfolding hf_item_to_project_def
      by (simp only: ebind_simps if_False) (elim ebind_InrE, blast)
    from p have "q = p" by simp
    with Project_init_dates[OF q] c u show ?thesis
      by simp
  qed
qed

lemma collect_strip:
  assumes "\<And>item. map_sum id (map_option erase_timestamps) (f item) = f (strip_timestamps item)"
  shows "map_sum id (map erase_timestamps) (collect f items)
         = collect f (map strip_timestamps items)"
proof (induction items)
  case Nil
  show ?case by simp
next
  case (Cons x xs)
  show ?case
  proof (cases "f x")
    case (Inl e)
    with assms[of x] have "f (strip_timestamps x) = Inl e"
      by simp
    with Inl show ?thesis by simp
  next
    case (Inr r)
    with assms[of x] have fx: "f (strip_timestamps x) = Inr (map_option erase_timestamps r)"
      by simp
    show ?thesis
    proof (cases "collect f xs")
      case (Inl e)
      with Cons have "collect f (map strip_timestamps xs) = Inl e"
        by simp
      with Inl Inr fx show ?thesis by simp
    next
      case ps: (Inr ps)
      with Cons have "collect f (map strip_timestamps xs) = Inr (map erase_timestamps ps)"
        by simp
      with Inr ps fx show ?thesis
        by (cases r) simp_all
    qed
  qed
qed

text \<open>
  Claim C10. Let \<open>f\<close> be the item mapping of a category fetch (models, datasets or
  spaces). \<open>parse_datetime\<close> never raises, and returns \<^verbatim>\<open>None\<close> for every value that is
  absent (\<^verbatim>\<open>None\<close>), not a string, or a string that \<^verbatim>\<open>fromisoformat\<close> refuses. A record
  that an item yields carries in \<open>created_at\<close> and \<open>updated_at\<close> what \<open>parse_datetime\<close>
  returns for \<^verbatim>\<open>createdAt\<close> and \<^verbatim>\<open>lastModified\<close>. Whether an item is skipped, raises
  or yields a record, and whether the whole list of items raises, is what it would be
  without the two timestamps: the outcome with the timestamps erased is the outcome
  of the items without them.
\<close>

theorem hf_timestamps_tolerated:
  assumes "f \<in> {model_to_project L, dataset_to_project L, space_to_project L}"
  shows "parse_datetime L v \<noteq> Inl e
       \<and> ((\<forall>s. v = JStr s \<longrightarrow> fromisoformat L (replace_Z s) = None)
            \<longrightarrow> parse_datetime L v = Inr None)
       \<and> (f item = Inr (Some p) \<longrightarrow>
            ebind (py_get item ''createdAt'' JNull) (parse_datetime L) = Inr (created_at p)
            \<and> ebind (py_get item ''lastModified'' JNull) (parse_datetime L) = Inr (updated_at p))
       \<and> map_sum id (map_option erase_timestamps) (f item) = f (strip_timestamps item)
       \<and> map_sum id (map erase_timestamps) (collect f items)
           = collect f (map strip_timestamps items)"
proof -
  from assms obtain ty pre lf where
    f: "f = hf_item_to_project L ty pre lf"
    and lf: "lf \<noteq> Some ''createdAt''" "lf \<noteq> Some ''lastModified''"
    by (auto simp: model_to_project_def dataset_to_project_def space_to_project_def)
  have strip: "map_sum id (map_option erase_timestamps) (f x) = f (strip_timestamps x)" for x
    unfolding f using lf by (rule hf_item_strip)
  have 1: "parse_datetime L v \<noteq> Inl e"
    using parse_datetime_total[of L v] by auto
  have 2: "(\<forall>s. v = JStr s \<longrightarrow> fromisoformat L (replace_Z s) = None)
            \<longrightarrow> parse_datetime L v = Inr None"
    using parse_datetime_bad by blast
  have 3: "f item = Inr (Some p) \<longrightarrow>
            ebind (py_get item ''createdAt'' JNull) (parse_datetime L) = Inr (created_at p)
            \<and> ebind (py_get item ''lastModified'' JNull) (parse_datetime L) = Inr (updated_at p)"
    unfolding f using hf_item_dates by blast
  from 1 2 3 strip[of item] collect_strip[of f items, OF strip] show ?thesis
    by blast
qed

theorem hf_timestamps_tolerated_witness:
  "parse_datetime sample_lib (JStr ''yesterday'') = Inr None
   \<and> model_to_project sample_lib undated_model
       = Inr (Some (erase_timestamps sample_model_record))
   \<and> snd (fetch_public_models sample_lib (listing_http [undated_model, sample_model])
             sample_hf (Some ''u'') [])
       = Inr [erase_timestamps sample_model_record, sample_model_record]"
proof -
  have m: "model_to_project sample_lib \<in> {model_to_project sample_lib,
      dataset_to_project sample_lib, space_to_project sample_lib}"
    by simp
  have bad: "\<forall>s. JStr ''yesterday'' = JStr s \<longrightarrow> fromisoformat sample_lib (replace_Z s) = None"
    by (simp add: sample_lib_def replace_Z_def)
  have s: "strip_timestamps undated_model = strip_timestamps sample_model"
    by (simp add: undated_model_def sample_model_def)
  note t = hf_timestamps_tolerated[OF m, of "JStr ''yesterday''" _ sample_model
      sample_model_record "[]"]
  note t' = hf_timestamps_tolerated[OF m, of "JStr ''yesterday''" _ undated_model
      sample_model_record "[]"]
  from t' bad have 1: "parse_datetime sample_lib (JStr ''yesterday'') = Inr None"
    by blast
  from t have "model_to_project sample_lib (strip_timestamps sample_model)
      = map_sum id (map_option erase_timestamps) (model_to_project sample_lib sample_model)"
    by simp
  then have a: "model_to_project sample_lib (strip_timestamps undated_model)
      = Inr (Some (erase_timestamps sample_model_record))"
    by (simp add: s model_to_project_sample)
  from t' have "map_sum id (map_option erase_timestamps)
        (model_to_project sample_lib undated_model)
      = model_to_project sample_lib (strip_timestamps undated_model)"
    by simp
  with a have b: "map_sum id (map_option erase_timestamps)
        (model_to_project sample_lib undated_model)
      = Inr (Some (erase_timestamps sample_model_record))"
    by simp
  then obtain q where q: "model_to_project sample_lib undated_model = Inr (Some q)"
    by (cases "model_to_project sample_lib undated_model") (auto simp: map_option_case split: option.splits)
  from hf_timestamps_tolerated[OF m, of "JStr ''yesterday''" _ undated_model q "[]"] q 1
  have "created_at q = None" "updated_at q = None"
    by (simp_all add: undated_model_def parse_datetime_def)
  with q b have 2: "model_to_project sample_lib undated_model
      = Inr (Some (erase_timestamps sample_model_record))"
    by (cases q) (simp add: erase_timestamps_def)
  have u: "''u'' \<noteq> []" by simp
  have "listing_http [undated_model, sample_model] (hf_request sample_hf ''models'' (JStr ''u''))
      = Inr (JArr [undated_model, sample_model])"
    by (simp add: listing_http_def hf_request_def)
  with 2 have 3: "snd (fetch_public_models sample_lib (listing_http [undated_model, sample_model])
             sample_hf (Some ''u'') [])
       = Inr [erase_timestamps sample_model_record, sample_model_record]"
    by (simp add: fetch_public_models_def hf_fetch_category_result[OF u] model_to_project_sample)
  from 1 2 3 show ?thesis by simp
qed

section \<open>Loading the prior snapshot\<close>

lemma path_exists_raises:
  "path_exists fs p = Inl e \<longleftrightarrow> p \<noteq> [] \<and> fs p = Some Denied \<and> e = OSError"
  by (auto simp: path_exists_def split: option.splits node.splits)

lemma path_exists_False: "path_exists fs p = Inr False \<longleftrightarrow> p \<noteq> [] \<and> fs p = None"
  by (auto simp: path_exists_def split: option.splits node.splits)

lemma load_existing_index_denied:
  "path_exists fs p = Inl e \<Longrightarrow> load_existing_index L now fs p tr = (tr, Inl e)"
  by (simp add: load_existing_index_def)

lemma load_existing_index_missing:
  "path_exists fs p = Inr False \<Longrightarrow> load_existing_index L now fs p tr = (tr, Inr None)"
  by (simp add: load_existing_index_def)

lemma load_existing_index_unreadable:
  "path_exists fs p = Inr True \<Longrightarrow> read_json fs p = Inl e \<Longrightarrow>
   load_existing_index L now fs p tr
     = (tr @ [Log WARNING ''Could not load existing index: {e}'' [ArgErr e]], Inr None)"
  by (simp add: load_existing_index_def)

lemma read_json_exists: "read_json fs p = Inr j \<Longrightarrow> path_exists fs p = Inr True"
  by (auto simp: path_exists_def read_json_def split: if_splits option.splits node.splits)

lemma load_existing_index_invalid:
  "read_json fs p = Inr j \<Longrightarrow> ProjectIndex_validate L now j = Inl e \<Longrightarrow>
   load_existing_index L now fs p tr
     = (tr @ [Log WARNING ''Could not load existing index: {e}'' [ArgErr e]], Inr None)"
  by (simp add: load_existing_index_def read_json_exists)

lemma load_existing_index_valid:
  "read_json fs p = Inr j \<Longrightarrow> ProjectIndex_validate L now j = Inr index \<Longrightarrow>
   load_existing_index L now fs p tr
     = (tr @ [Log INFO ''Loaded existing index with {len(index.projects)} projects''
                [ArgInt (int (length (projects index)))]],
        Inr (Some index))"
  by (simp add: load_existing_index_def read_json_exists)

lemma read_json_bad_file:
  "fs p = Some Garbage \<or> fs p = Some Locked \<or> fs p = Some Dir \<Longrightarrow> \<exists>e. read_json fs p = Inl e"
  by (auto simp: read_json_def)

text \<open>
  What \<open>load_existing_index\<close> does on the paths at which \<^verbatim>\<open>exists()\<close> returns: it
  returns too, in one of three ways. A path that holds nothing gives \<^verbatim>\<open>None\<close> with
  nothing logged. A path that cannot be read as JSON (a directory, a file that \<^verbatim>\<open>open\<close>
  refuses, a file that \<^verbatim>\<open>json.load\<close> refuses) gives \<^verbatim>\<open>None\<close> with one warning, and so
  does a JSON value that is not a valid index. A valid index is returned. Whenever the
  result is \<^verbatim>\<open>None\<close>, the run starts from \<^verbatim>\<open>ProjectIndex()\<close>.
\<close>

lemma load_existing_index_returns:
  assumes "path_exists fs p = Inr found"
  shows "load_existing_index L now fs p tr = (tr, Inr None)
      \<or> (\<exists>e. load_existing_index L now fs p tr
                = (tr @ [Log WARNING ''Could not load existing index: {e}'' [ArgErr e]],
                   Inr None))
      \<or> (\<exists>index. load_existing_index L now fs p tr
                = (tr @ [Log INFO ''Loaded existing index with {len(index.projects)} projects''
                           [ArgInt (int (length (projects index)))]],
                   Inr (Some index)))"
proof (cases found)
  case False
  with assms show ?thesis by (simp add: load_existing_index_missing)
next
  case True
  show ?thesis
  proof (cases "read_json fs p")
    case (Inl e)
    with True assms show ?thesis by (simp add: load_existing_index_unreadable)
  next
    case (Inr j)
    then show ?thesis
      by (cases "ProjectIndex_validate L now j")
        (simp_all add: load_existing_index_invalid load_existing_index_valid)
  qed
qed

lemma load_existing_index_bad_file:
  assumes "p \<noteq> []" and "fs p = Some Garbage \<or> fs p = Some Locked \<or> fs p = Some Dir"
  shows "\<exists>e. load_existing_index L now fs p tr
                = (tr @ [Log WARNING ''Could not load existing index: {e}'' [ArgErr e]],
                   Inr None)"
proof -
  from assms have ex: "path_exists fs p = Inr True"
    by (auto simp: path_exists_def)
  from read_json_bad_file[of fs p, OF assms(2)] obtain e where "read_json fs p = Inl e" ..
  with ex show ?thesis
    by (simp add: load_existing_index_unreadable)
qed

lemma start_index_new:
  "snd (load_existing_index L now fs output_file tr) = Inr None \<Longrightarrow>
   fst (start_index L now fs tr) = Inr (ProjectIndex_new now)"
  by (cases "load_existing_index L now fs output_file tr") (simp add: start_index_def)

lemma load_raises_iff:
  "(\<exists>e. snd (load_existing_index L now fs p tr) = Inl e) \<longleftrightarrow> p \<noteq> [] \<and> fs p = Some Denied"
proof (cases "path_exists fs p")
  case (Inl e)
  then have "p \<noteq> [] \<and> fs p = Some Denied"
    by (simp add: path_exists_raises)
  moreover from Inl have "snd (load_existing_index L now fs p tr) = Inl e"
    by (simp add: load_existing_index_denied)
  ultimately show ?thesis by blast
next
  case (Inr found)
  then have "\<not> (p \<noteq> [] \<and> fs p = Some Denied)"
    using path_exists_raises[of fs p OSError] by auto
  moreover from load_existing_index_returns[OF Inr, of L now tr]
  have "\<not> (\<exists>e. snd (load_existing_index L now fs p tr) = Inl e)"
    by auto
  ultimately show ?thesis by simp
qed

text \<open>
  Claim C7, at the input on which the code fails: the snapshot lies in a data directory
  that is there but cannot be searched, so that \<^verbatim>\<open>stat\<close> of the snapshot fails with
  \<^verbatim>\<open>EACCES\<close>. \<^verbatim>\<open>output_file.exists()\<close> raises that \<^verbatim>\<open>OSError\<close> again, and it is called
  before the \<^verbatim>\<open>try\<close> block: \<open>load_existing_index\<close> raises \<^verbatim>\<open>OSError\<close> with nothing
  logged, instead of logging a warning and returning \<^verbatim>\<open>None\<close>, and a run of \<^verbatim>\<open>main\<close> with
  a credential ends by that exception, the files as they were.
\<close>

theorem load_existing_index_raises:
  "load_existing_index sample_lib ''2024-05-01T10:00:00''
       [data_dir \<mapsto> Dir, output_file \<mapsto> Denied] output_file []
     = ([], Inl OSError)
   \<and> main sample_lib denied_world
     = Some (([data_dir \<mapsto> Dir, output_file \<mapsto> Denied],
              [Log INFO (replicate 60 (CHR ''='')) [],
               Log INFO ''Starting project indexing'' [],
               Log INFO (replicate 60 (CHR ''='')) [],
               Log INFO ''GitHub indexer initialized'' [],
               Log ERROR ''Failed to initialize HuggingFace indexer: {e}'' [ArgErr ValueError]]),
             Some OSError)"
proof -
  have ne: "output_file \<noteq> data_dir" "data_dir \<noteq> output_file" "output_file \<noteq> []"
    "data_dir \<noteq> []"
    by (simp_all add: output_file_def data_dir_def)
  have l: "load_existing_index sample_lib now
       [data_dir \<mapsto> Dir, output_file \<mapsto> Denied] output_file tr = (tr, Inl OSError)" for now tr
    by (simp add: load_existing_index_def path_exists_def ne)
  have m: "mkdir [data_dir \<mapsto> Dir, output_file \<mapsto> Denied] data_dir
      = Inr [data_dir \<mapsto> Dir, output_file \<mapsto> Denied]"
    by (simp add: mkdir_def is_dir_def ne)
  have "main sample_lib denied_world
     = Some (([data_dir \<mapsto> Dir, output_file \<mapsto> Denied],
              [Log INFO (replicate 60 (CHR ''='')) [],
               Log INFO ''Starting project indexing'' [],
               Log INFO (replicate 60 (CHR ''='')) [],
               Log INFO ''GitHub indexer initialized'' [],
               Log ERROR ''Failed to initialize HuggingFace indexer: {e}'' [ArgErr ValueError]]),
             Some OSError)"
    by (simp add: main_def denied_world_def offline_world_def m l init_github_def init_hf_def
        GitHubIndexer_init_def HuggingFaceIndexer_init_def or_getenv_def start_index_def)
  with l show ?thesis by simp
qed

section \<open>The round trip of a snapshot\<close>

lemma those_validate_str: "those (map (validate_str \<circ> JStr) ts) = Some ts"
  by (induction ts) simp_all

lemma validate_str_list_dump: "validate_str_list (JArr (map JStr ts)) = Some ts"
  by (simp add: those_validate_str)













lemma projects_update_metadata [simp]: "projects (update_metadata now idx) = projects idx"
  by (simp add: update_metadata_def Let_def)






section \<open>A run without credentials\<close>

lemma init_github_missing:
  "e ''GITHUB_API_KEY'' = None \<or> e ''GITHUB_API_KEY'' = Some [] \<Longrightarrow>
   init_github e tr
     = (None, tr @ [Log ERROR ''Failed to initialize GitHub indexer: {e}'' [ArgErr ValueError]])"
  by (auto simp: init_github_def GitHubIndexer_init_def or_getenv_def)

lemma init_hf_missing:
  "e ''HF_CLI'' = None \<or> e ''HF_CLI'' = Some [] \<Longrightarrow>
   init_hf e tr
     = (None, tr @ [Log ERROR ''Failed to initialize HuggingFace indexer: {e}''
                      [ArgErr ValueError]])"
  by (auto simp: init_hf_def HuggingFaceIndexer_init_def or_getenv_def)

lemma mkdir_frame:
  "mkdir fs d = Inr fs' \<Longrightarrow>
   (\<forall>p. p \<noteq> d \<longrightarrow> fs' p = fs p) \<and> (fs' d = fs d \<or> fs' d = Some Dir)"
  by (auto simp: mkdir_def split: if_splits)

lemma mkdir_error: "mkdir fs d = Inl e \<Longrightarrow> e = OSError"
  by (auto simp: mkdir_def split: if_splits)

lemma paths_differ:
  "output_file \<noteq> data_dir" "organized_dir \<noteq> data_dir" "organized_dir @ [file] \<noteq> data_dir"
  by (simp_all add: output_file_def organized_dir_def data_dir_def)

text \<open>
  Claim C9. Let neither credential be available: \<^verbatim>\<open>GITHUB_API_KEY\<close> and \<^verbatim>\<open>HF_CLI\<close> are
  unset or empty. Then \<^verbatim>\<open>main\<close> returns, has sent no request, and has left the
  snapshot, the directory of the exports and every export file as they were; the only
  path it can have changed is the data directory, which it creates before it looks for
  credentials. It ends either by the early \<^verbatim>\<open>return\<close> after logging that no indexer
  could be initialized, or, when the data directory cannot be created, by the
  \<^verbatim>\<open>OSError\<close> of \<^verbatim>\<open>mkdir\<close> with no file changed at all.
\<close>

theorem main_without_credentials:
  assumes "env w ''GITHUB_API_KEY'' = None \<or> env w ''GITHUB_API_KEY'' = Some []"
    and "env w ''HF_CLI'' = None \<or> env w ''HF_CLI'' = Some []"
  shows "\<exists>fs' tr r.
           main L w = Some ((fs', tr), r)
         \<and> requests_of tr = []
         \<and> fs' output_file = disk w output_file
         \<and> fs' organized_dir = disk w organized_dir
         \<and> (\<forall>file. fs' (organized_dir @ [file]) = disk w (organized_dir @ [file]))
         \<and> (\<forall>p. p \<noteq> data_dir \<longrightarrow> fs' p = disk w p)
         \<and> (fs' data_dir = disk w data_dir \<or> fs' data_dir = Some Dir)
         \<and> (r = None \<and> last tr = Log ERROR ''No indexers could be initialized. Exiting.'' []
              \<or> r = Some OSError \<and> fs' = disk w)"
proof (cases "mkdir (disk w) data_dir")
  case (Inl e)
  then have "e = OSError" by (rule mkdir_error)
  with Inl have "main L w = Some ((disk w,
      [Log INFO (replicate 60 (CHR ''='')) [], Log INFO ''Starting project indexing'' [],
       Log INFO (replicate 60 (CHR ''='')) []]), Some OSError)"
    by (simp add: main_def)
  then show ?thesis
    by (intro exI conjI) (assumption, simp_all)
next
  case (Inr fs1)
  let ?tr0 = "[Log INFO (replicate 60 (CHR ''='')) [], Log INFO ''Starting project indexing'' [],
       Log INFO (replicate 60 (CHR ''='')) []]"
  let ?tr = "?tr0 @ [Log ERROR ''Failed to initialize GitHub indexer: {e}'' [ArgErr ValueError]]
       @ [Log ERROR ''Failed to initialize HuggingFace indexer: {e}'' [ArgErr ValueError]]
       @ [Log ERROR ''No indexers could be initialized. Exiting.'' []]"
  from Inr have m: "main L w = Some ((fs1, ?tr), None)"
    by (simp add: main_def init_github_missing[of "env w", OF assms(1)] init_hf_missing[of "env w", OF assms(2)])
  from mkdir_frame[OF Inr] have
    f: "\<forall>p. p \<noteq> data_dir \<longrightarrow> fs1 p = disk w p"
    and d: "fs1 data_dir = disk w data_dir \<or> fs1 data_dir = Some Dir"
    by blast+
  from f paths_differ have
    "fs1 output_file = disk w output_file" "fs1 organized_dir = disk w organized_dir"
    "\<forall>file. fs1 (organized_dir @ [file]) = disk w (organized_dir @ [file])"
    by blast+
  with m f d show ?thesis
    by (intro exI conjI) (assumption, simp_all)
qed

theorem main_without_credentials_witness:
  "\<exists>tr. main sample_lib bare_world = Some (([data_dir \<mapsto> Dir], tr), None)
       \<and> requests_of tr = []
       \<and> last tr = Log ERROR ''No indexers could be initialized. Exiting.'' []"
proof -
  have 1: "env bare_world ''GITHUB_API_KEY'' = None \<or> env bare_world ''GITHUB_API_KEY'' = Some []"
    and 2: "env bare_world ''HF_CLI'' = None \<or> env bare_world ''HF_CLI'' = Some []"
    by (simp_all add: bare_world_def)
  from main_without_credentials[OF 1 2, of sample_lib] obtain fs' tr r where
    t: "main sample_lib bare_world = Some ((fs', tr), r)" "requests_of tr = []"
       "\<forall>p. p \<noteq> data_dir \<longrightarrow> fs' p = disk bare_world p"
       "r = None \<and> last tr = Log ERROR ''No indexers could be initialized. Exiting.'' []
          \<or> r = Some OSError \<and> fs' = disk bare_world"
    by blast
  have mk: "mkdir (disk bare_world) data_dir = Inr [data_dir \<mapsto> Dir]"
    by (simp add: mkdir_def is_dir_def bare_world_def data_dir_def)
  from t(1) mk have "fs' = [data_dir \<mapsto> Dir] \<and> r = None"
    by (simp add: main_def init_github_def init_hf_def GitHubIndexer_init_def
        HuggingFaceIndexer_init_def or_getenv_def bare_world_def)
  with t show ?thesis by auto
qed

text \<open>
  With a credential the run does write: here the remote side fails on every request,
  each fetch is logged and skipped, and the run ends normally with a snapshot of the
  empty index and the directory of the exports.
\<close>

lemma main_offline_writes:
  "\<exists>tr. main sample_lib offline_world
      = Some (([data_dir \<mapsto> Dir,
                output_file \<mapsto> Doc (to_json sample_lib
                    (update_metadata ''2024-05-01T10:00:05''
                       (ProjectIndex_new ''2024-05-01T10:00:00''))),
                organized_dir \<mapsto> Dir], tr), None)"
  by (simp add: main_def offline_world_def mkdir_def is_dir_def init_github_def init_hf_def
      GitHubIndexer_init_def HuggingFaceIndexer_init_def or_getenv_def start_index_def
      load_existing_index_def path_exists_def github_phase_def fetch_public_repos_def
      fetch_public_gists_def resolve_user_def gh_get_authenticated_user_def Let_def
      merge_fetched_def log_rate_limit_def check_rate_limit_def hf_phase_def finish_def
      sort_by_date_def ProjectIndex_new_def save_index_def write_json_def
      create_organized_output_def export_category_def and_then_def update_metadata_def
      get_by_source_def data_dir_def output_file_def organized_dir_def)

end
